theory Spec2Isabelle
  imports Complex_Main "HOL-Library.AList"
begin

section \<open>Python values\<close>

text \<open>
  Exceptions: \<open>Exception c\<close> is an instance of the class \<open>c\<close>, a subclass of
  \<open>Exception\<close>; \<open>KeyboardInterrupt\<close> and \<open>SystemExit\<close> derive from \<open>BaseException\<close> only,
  so \<open>except Exception\<close> does not catch them.
\<close>

datatype exc = Exception string | KeyboardInterrupt | SystemExit

fun is_Exception :: "exc \<Rightarrow> bool" where
  "is_Exception (Exception c) = True"
| "is_Exception KeyboardInterrupt = False"
| "is_Exception SystemExit = False"

text \<open>
  A Python float is modelled by the real number it denotes, or one of the three special
  values. Comparing a float with an int is exact in Python, so \<open>float_ge_int\<close> is exact.
  Operations that round (the subtraction of two floats, the conversion of a large int) are
  those of the runtime and are parameters, see \<open>pylib\<close> below.
\<close>

datatype pyfloat = Finite real | PosInf | NegInf | NaN

text \<open>\<open>x >= n\<close> for a float \<open>x\<close> and an int \<open>n\<close>; every comparison with NaN is False.\<close>

fun float_ge_int :: "pyfloat \<Rightarrow> int \<Rightarrow> bool" where
  "float_ge_int (Finite r) n = (of_int n \<le> r)"
| "float_ge_int PosInf n = True"
| "float_ge_int NegInf n = False"
| "float_ge_int NaN n = False"

text \<open>
  The values \<open>json.load\<close> produces. A dict is an association list read with \<open>map_of\<close>
  and written with \<open>AList.update\<close>.
\<close>

datatype json =
    JNull
  | JBool bool
  | JInt int
  | JFloat pyfloat
  | JStr string
  | JList "json list"
  | JObj "(string \<times> json) list"

type_synonym pydict = "(string \<times> json) list"

text \<open>
  The operations of the Python runtime that are not modelled here are parameters:
  parsing a string as an int (\<open>int(s)\<close>) or as a float (\<open>float(s)\<close>), \<open>None\<close> when
  Python raises ValueError; the text \<open>str(x)\<close> of a number or a container; the
  difference \<open>x - y\<close> of two floats, rounded as the runtime rounds it; and \<open>float(i)\<close>
  for an int beyond \<open>2^53\<close> in absolute value, which rounds, \<open>None\<close> when Python raises
  OverflowError.
\<close>

record pylib =
  int_of_str :: "string \<Rightarrow> int option"
  float_of_str :: "string \<Rightarrow> pyfloat option"
  repr_of :: "json \<Rightarrow> string"
  float_minus :: "pyfloat \<Rightarrow> pyfloat \<Rightarrow> pyfloat"
  float_of_big_int :: "int \<Rightarrow> pyfloat option"

text \<open>Truth value of an object, as \<open>bool(x)\<close>, \<open>x or y\<close> and \<open>if x\<close> use it.\<close>

fun truthy :: "json \<Rightarrow> bool" where
  "truthy JNull = False"
| "truthy (JBool b) = b"
| "truthy (JInt i) = (i \<noteq> 0)"
| "truthy (JFloat f) = (f \<noteq> Finite 0)"
| "truthy (JStr s) = (s \<noteq> [])"
| "truthy (JList xs) = (xs \<noteq> [])"
| "truthy (JObj kvs) = (kvs \<noteq> [])"

text \<open>\<open>x or y\<close>\<close>

definition py_or :: "json \<Rightarrow> json \<Rightarrow> json" where
  "py_or x y = (if truthy x then x else y)"

text \<open>\<open>d.get(k, dflt)\<close>\<close>

definition dict_get :: "pydict \<Rightarrow> string \<Rightarrow> json \<Rightarrow> json" where
  "dict_get d k dflt = (case map_of d k of None \<Rightarrow> dflt | Some v \<Rightarrow> v)"

text \<open>\<open>int(x)\<close>: truncation toward zero for a float.\<close>

fun py_int :: "pylib \<Rightarrow> json \<Rightarrow> exc + int" where
  "py_int L JNull = Inl (Exception ''TypeError'')"
| "py_int L (JBool b) = Inr (if b then 1 else 0)"
| "py_int L (JInt i) = Inr i"
| "py_int L (JFloat (Finite r)) = Inr (if 0 \<le> r then \<lfloor>r\<rfloor> else \<lceil>r\<rceil>)"
| "py_int L (JFloat PosInf) = Inl (Exception ''OverflowError'')"
| "py_int L (JFloat NegInf) = Inl (Exception ''OverflowError'')"
| "py_int L (JFloat NaN) = Inl (Exception ''ValueError'')"
| "py_int L (JStr s) =
     (case int_of_str L s of None \<Rightarrow> Inl (Exception ''ValueError'') | Some i \<Rightarrow> Inr i)"
| "py_int L (JList xs) = Inl (Exception ''TypeError'')"
| "py_int L (JObj kvs) = Inl (Exception ''TypeError'')"

text \<open>
  \<open>float(x)\<close>: an int up to \<open>2^53\<close> in absolute value is a double and is kept as it
  is; a larger one is rounded, or raises OverflowError, as the runtime decides.
\<close>

fun py_float :: "pylib \<Rightarrow> json \<Rightarrow> exc + pyfloat" where
  "py_float L JNull = Inl (Exception ''TypeError'')"
| "py_float L (JBool b) = Inr (Finite (if b then 1 else 0))"
| "py_float L (JInt i) =
     (if \<bar>i\<bar> \<le> 2 ^ 53 then Inr (Finite (of_int i))
      else (case float_of_big_int L i of
              None \<Rightarrow> Inl (Exception ''OverflowError'')
            | Some f \<Rightarrow> Inr f))"
| "py_float L (JFloat f) = Inr f"
| "py_float L (JStr s) =
     (case float_of_str L s of None \<Rightarrow> Inl (Exception ''ValueError'') | Some f \<Rightarrow> Inr f)"
| "py_float L (JList xs) = Inl (Exception ''TypeError'')"
| "py_float L (JObj kvs) = Inl (Exception ''TypeError'')"

text \<open>\<open>str(x)\<close>\<close>

fun py_str :: "pylib \<Rightarrow> json \<Rightarrow> string" where
  "py_str L (JStr s) = s"
| "py_str L JNull = ''None''"
| "py_str L (JBool b) = (if b then ''True'' else ''False'')"
| "py_str L j = repr_of L j"

text \<open>
  \<open>s.strip()\<close> removes leading and trailing whitespace. Strings are over the code points
  0 to 255; the whitespace among them is 9 to 13, 28 to 32, 133 and 160.
\<close>

definition isspace :: "char \<Rightarrow> bool" where
  "isspace c = (let n = (of_char c :: nat) in
     (9 \<le> n \<and> n \<le> 13) \<or> (28 \<le> n \<and> n \<le> 32) \<or> n = 133 \<or> n = 160)"

definition strip :: "string \<Rightarrow> string" where
  "strip s = rev (dropWhile isspace (rev (dropWhile isspace s)))"

section \<open>Files\<close>

text \<open>
  A file that \<open>load_json\<close> reads is missing (or unreadable), holds text that is not JSON,
  or holds a document. \<open>json.dump\<close> followed by \<open>json.load\<close> is taken to give the value
  back, so a written file is \<open>Doc\<close> of the value written.
\<close>

datatype disk_file = Missing | Corrupt | Doc json

text \<open>\<open>load_json(path, dflt)\<close>, monitor.py lines 61-66.\<close>

fun load_json :: "disk_file \<Rightarrow> json \<Rightarrow> json" where
  "load_json (Doc j) dflt = j"
| "load_json Missing dflt = dflt"
| "load_json Corrupt dflt = dflt"

text \<open>\<open>clamp_int(x, lo, hi, dflt)\<close>, lines 79-84; \<open>int\<close> raises only subclasses of Exception.\<close>

definition clamp_int :: "pylib \<Rightarrow> json \<Rightarrow> int \<Rightarrow> int \<Rightarrow> int \<Rightarrow> int" where
  "clamp_int L x lo hi dflt =
     (case py_int L x of
        Inr v \<Rightarrow> max lo (min hi v)
      | Inl e \<Rightarrow> dflt)"

section \<open>The notifier\<close>

text \<open>
  \<open>telegram_send(bot_token, chat_id, text)\<close>, lines 86-94. The body of the \<open>try\<close> builds one
  request and calls \<open>urlopen\<close> once; \<open>attempt\<close> is what that body does: \<open>None\<close> when it
  returns, \<open>Some e\<close> when it raises \<open>e\<close>. The handler is \<open>except Exception: pass\<close>.
\<close>

definition telegram_send :: "string \<Rightarrow> string \<Rightarrow> string \<Rightarrow> exc option \<Rightarrow> exc + unit" where
  "telegram_send bot_token chat_id text attempt =
     (case attempt of
        None \<Rightarrow> Inr ()
      | Some e \<Rightarrow> (if is_Exception e then Inr () else Inl e))"

section \<open>Status logic\<close>

text \<open>Statuses are the strings of the source.\<close>

definition UP :: string where "UP = ''UP''"
definition DEGRADED :: string where "DEGRADED = ''DEGRADED''"
definition DOWN :: string where "DOWN = ''DOWN''"
definition UNKNOWN :: string where "UNKNOWN = ''UNKNOWN''"

text \<open>\<open>classify_status(ok, latency_ms, degraded_ms)\<close>, lines 186-191.\<close>

fun classify_status :: "bool \<Rightarrow> pyfloat option \<Rightarrow> int \<Rightarrow> string" where
  "classify_status ok latency_ms degraded_ms =
     (if \<not> ok then DOWN
      else (case latency_ms of
              None \<Rightarrow> UP
            | Some l \<Rightarrow> (if float_ge_int l degraded_ms then DEGRADED else UP)))"

record target =
  name :: string
  host :: string

text \<open>\<open>normalize_targets(cfg)\<close>, lines 193-206: the loop over the list, then the function.\<close>

fun normalize_loop :: "pylib \<Rightarrow> json list \<Rightarrow> target list" where
  "normalize_loop L [] = []"
| "normalize_loop L (t # ts) =
     (case t of
        JObj d \<Rightarrow>
          (let n0 = strip (py_str L (dict_get d ''name'' (JStr [])));
               nm = (if n0 \<noteq> [] then n0 else strip (py_str L (dict_get d ''host'' (JStr []))));
               h = strip (py_str L (dict_get d ''host'' (JStr [])))
           in if h = [] then normalize_loop L ts
              else \<lparr>name = nm, host = h\<rparr> # normalize_loop L ts)
      | _ \<Rightarrow> normalize_loop L ts)"

definition normalize_targets :: "pylib \<Rightarrow> pydict \<Rightarrow> target list" where
  "normalize_targets L cfg =
     (case dict_get cfg ''targets'' (JList []) of
        JList ts \<Rightarrow> normalize_loop L ts
      | _ \<Rightarrow> [])"

section \<open>Configuration\<close>

text \<open>\<open>DEFAULT_CONFIG\<close>, lines 27-43, and its \<open>"telegram"\<close> entry.\<close>

definition DEFAULT_TELEGRAM :: pydict where
  "DEFAULT_TELEGRAM =
     [(''enabled'', JBool False), (''bot_token'', JStr []), (''chat_id'', JStr []),
      (''cooldown_seconds'', JInt 60)]"

definition DEFAULT_CONFIG :: pydict where
  "DEFAULT_CONFIG =
     [(''interval_seconds'', JInt 3), (''timeout_ms'', JInt 1200), (''degraded_ms'', JInt 120),
      (''fail_threshold'', JInt 2),
      (''targets'', JList
         [JObj [(''name'', JStr ''Google DNS''), (''host'', JStr ''8.8.8.8'')],
          JObj [(''name'', JStr ''Cloudflare DNS''), (''host'', JStr ''1.1.1.1'')],
          JObj [(''name'', JStr ''Router''), (''host'', JStr ''192.168.1.1'')]]),
      (''telegram'', JObj DEFAULT_TELEGRAM)]"

text \<open>\<open>DEFAULT_CONFIG[k]\<close> for the integer entries.\<close>

definition default_int :: "string \<Rightarrow> int" where
  "default_int k = (case dict_get DEFAULT_CONFIG k JNull of JInt i \<Rightarrow> i | _ \<Rightarrow> 0)"

text \<open>The values \<open>main\<close> computes from the configuration, lines 214-232.\<close>

record config =
  cfg_interval :: int
  cfg_timeout_ms :: int
  cfg_degraded_ms :: int
  cfg_fail_threshold :: int
  cfg_tg_enabled :: bool
  cfg_tg_token :: string
  cfg_tg_chat :: string
  cfg_tg_cooldown :: int
  cfg_targets :: "target list"

definition load_config :: "pylib \<Rightarrow> disk_file \<Rightarrow> config" where
  "load_config L config_json =
     (let cfg = (case load_json config_json (JObj DEFAULT_CONFIG) of
                   JObj d \<Rightarrow> d | _ \<Rightarrow> DEFAULT_CONFIG);
          tg = (case dict_get cfg ''telegram'' (JObj []) of
                  JObj d \<Rightarrow> d | _ \<Rightarrow> DEFAULT_TELEGRAM)
      in \<lparr>cfg_interval =
            clamp_int L (dict_get cfg ''interval_seconds'' JNull) 1 3600
              (default_int ''interval_seconds''),
          cfg_timeout_ms =
            clamp_int L (dict_get cfg ''timeout_ms'' JNull) 200 10000 (default_int ''timeout_ms''),
          cfg_degraded_ms =
            clamp_int L (dict_get cfg ''degraded_ms'' JNull) 1 20000 (default_int ''degraded_ms''),
          cfg_fail_threshold =
            clamp_int L (dict_get cfg ''fail_threshold'' JNull) 1 20
              (default_int ''fail_threshold''),
          cfg_tg_enabled = truthy (dict_get tg ''enabled'' (JBool False)),
          cfg_tg_token = strip (py_str L (dict_get tg ''bot_token'' (JStr []))),
          cfg_tg_chat = strip (py_str L (dict_get tg ''chat_id'' (JStr []))),
          cfg_tg_cooldown = clamp_int L (dict_get tg ''cooldown_seconds'' JNull) 5 3600 60,
          cfg_targets = normalize_targets L cfg\<rparr>)"

section \<open>The main loop\<close>

text \<open>
  What the loop reads and writes: the in-memory \<open>state\<close> and \<open>snapshot_by_host\<close> dicts,
  the files data/status.json and data/state.json, the lines of data/history.jsonl and
  data/alerts.jsonl, and the texts handed to \<open>telegram_send\<close>. Writes to the files are
  taken to succeed.
\<close>

record world =
  state :: pydict
  snapshot_by_host :: pydict
  status_json :: disk_file
  state_json :: disk_file
  history_jsonl :: "json list"
  alerts_jsonl :: "json list"
  telegram_calls :: "string list"

text \<open>
  What the environment supplies in one iteration of the \<open>for\<close> loop: the result of \<open>ping\<close>
  (its \<open>ok\<close> and \<open>latency\<close>), the value of \<open>time.time()\<close>, and whether the body of
  \<open>telegram_send\<close> raises.
\<close>

record sample =
  ping_ok :: bool
  ping_latency :: "pyfloat option"
  time_now :: real
  urlopen_raises :: "exc option"

text \<open>Lines 256-262 and 273: what the iteration reads from \<open>state\<close> for its host.\<close>

record prev_state =
  prev_status :: string
  prev_failures :: int
  prev_last_alert_ts :: pyfloat
  prev_last_seen :: json

definition read_prev :: "pylib \<Rightarrow> pydict \<Rightarrow> string \<Rightarrow> exc + prev_state" where
  "read_prev L st h =
     (let prev = (case dict_get st h (JObj []) of JObj d \<Rightarrow> d | _ \<Rightarrow> [])
      in case py_int L (py_or (dict_get prev ''failures'' (JInt 0)) (JInt 0)) of
           Inl e \<Rightarrow> Inl e
         | Inr failures \<Rightarrow>
            (case py_float L (py_or (dict_get prev ''last_alert_ts'' (JInt 0)) (JInt 0)) of
               Inl e \<Rightarrow> Inl e
             | Inr last_alert_ts \<Rightarrow>
                 Inr \<lparr>prev_status = py_str L (dict_get prev ''status'' (JStr ''UNKNOWN'')),
                      prev_failures = failures,
                      prev_last_alert_ts = last_alert_ts,
                      prev_last_seen = dict_get prev ''last_seen'' JNull\<rparr>))"

text \<open>Lines 267-273: the failure counter.\<close>

definition update_failures :: "bool \<Rightarrow> int \<Rightarrow> int" where
  "update_failures ok failures = (if ok then 0 else failures + 1)"

text \<open>Lines 277-280: DOWN only once the failures reach the threshold.\<close>

definition effective_status :: "string \<Rightarrow> int \<Rightarrow> int \<Rightarrow> string" where
  "effective_status current_status failures fail_threshold =
     (if current_status = DOWN \<and> failures < fail_threshold then DEGRADED else current_status)"

text \<open>Line 283: the condition under which an alert event is appended.\<close>

definition status_change :: "string \<Rightarrow> string \<Rightarrow> bool" where
  "status_change effective prev_st = (effective \<noteq> prev_st \<and> prev_st \<noteq> UNKNOWN)"

text \<open>Line 295: the condition, inside the alert branch, under which Telegram is called.\<close>

definition notify_due :: "pylib \<Rightarrow> config \<Rightarrow> real \<Rightarrow> pyfloat \<Rightarrow> bool" where
  "notify_due L cfg now last_alert_ts =
     (cfg_tg_enabled cfg \<and> cfg_tg_token cfg \<noteq> [] \<and> cfg_tg_chat cfg \<noteq> []
      \<and> float_ge_int (float_minus L (Finite now) last_alert_ts) (cfg_tg_cooldown cfg))"

text \<open>Lines 284-290, 296, 300-308 and 316-321: the records written.\<close>

definition alert_obj :: "string \<Rightarrow> target \<Rightarrow> string \<Rightarrow> string \<Rightarrow> json" where
  "alert_obj now_iso t prev_st effective =
     JObj [(''ts'', JStr now_iso), (''name'', JStr (name t)), (''host'', JStr (host t)),
           (''from'', JStr prev_st), (''to'', JStr effective)]"

definition alert_msg :: "target \<Rightarrow> string \<Rightarrow> string \<Rightarrow> string" where
  "alert_msg t prev_st effective =
     ''[Z Net Monitor] '' @ name t @ '' ('' @ host t @ '') '' @ prev_st @ '' -> '' @ effective"

definition item_of ::
  "string \<Rightarrow> target \<Rightarrow> string \<Rightarrow> pyfloat option \<Rightarrow> int \<Rightarrow> bool \<Rightarrow> json \<Rightarrow> pydict" where
  "item_of now_iso t effective latency failures ok last_seen =
     [(''name'', JStr (name t)), (''host'', JStr (host t)), (''status'', JStr effective),
      (''last_latency_ms'', (case latency of None \<Rightarrow> JNull | Some f \<Rightarrow> JFloat f)),
      (''failures'', JInt failures),
      (''last_seen'', (if ok then last_seen else (if truthy last_seen then last_seen else JNull))),
      (''updated_at'', JStr now_iso)]"

definition state_entry :: "string \<Rightarrow> int \<Rightarrow> json \<Rightarrow> pyfloat \<Rightarrow> pydict" where
  "state_entry effective failures item_last_seen last_alert_ts =
     [(''status'', JStr effective), (''failures'', JInt failures),
      (''last_seen'', item_last_seen), (''last_alert_ts'', JFloat last_alert_ts)]"

text \<open>
  Lines 253-321: one iteration of the \<open>for\<close> loop, for the target \<open>t\<close>. An exception
  leaves the loop (only KeyboardInterrupt is handled, by stopping).
\<close>

definition process_target ::
  "pylib \<Rightarrow> config \<Rightarrow> string \<Rightarrow> target \<Rightarrow> sample \<Rightarrow> world \<Rightarrow> exc + world" where
  "process_target L cfg now_iso t s w =
     (case read_prev L (state w) (host t) of
        Inl e \<Rightarrow> Inl e
      | Inr pv \<Rightarrow>
         (let current_status =
                classify_status (ping_ok s) (ping_latency s) (cfg_degraded_ms cfg);
              failures = update_failures (ping_ok s) (prev_failures pv);
              last_seen = (if ping_ok s then JStr now_iso else prev_last_seen pv);
              effective = effective_status current_status failures (cfg_fail_threshold cfg);
              changed = status_change effective (prev_status pv);
              due = (changed \<and> notify_due L cfg (time_now s) (prev_last_alert_ts pv));
              msg = alert_msg t (prev_status pv) effective;
              sent = (if due
                      then telegram_send (cfg_tg_token cfg) (cfg_tg_chat cfg) msg (urlopen_raises s)
                      else Inr ())
          in case sent of
               Inl e \<Rightarrow> Inl e
             | Inr u \<Rightarrow>
                (let last_alert_ts =
                       (if due then Finite (time_now s) else prev_last_alert_ts pv);
                     item = item_of now_iso t effective (ping_latency s) failures (ping_ok s)
                              last_seen
                 in Inr (w\<lparr>alerts_jsonl :=
                             alerts_jsonl w
                               @ (if changed then [alert_obj now_iso t (prev_status pv) effective]
                                  else []),
                           telegram_calls := telegram_calls w @ (if due then [msg] else []),
                           snapshot_by_host :=
                             AList.update (host t) (JObj item) (snapshot_by_host w),
                           history_jsonl := history_jsonl w @ [JObj item],
                           state :=
                             AList.update (host t)
                               (JObj (state_entry effective failures
                                        (dict_get item ''last_seen'' JNull) last_alert_ts))
                               (state w)\<rparr>))))"

text \<open>Lines 252-321: the \<open>for\<close> loop; \<open>samples i\<close> is what the \<open>i\<close>-th iteration observes.\<close>

fun run_targets ::
  "pylib \<Rightarrow> config \<Rightarrow> string \<Rightarrow> (nat \<Rightarrow> sample) \<Rightarrow> nat \<Rightarrow> target list \<Rightarrow> world
     \<Rightarrow> exc + world" where
  "run_targets L cfg now_iso samples i [] w = Inr w"
| "run_targets L cfg now_iso samples i (t # ts) w =
     (case process_target L cfg now_iso t (samples i) w of
        Inl e \<Rightarrow> Inl e
      | Inr w' \<Rightarrow> run_targets L cfg now_iso samples (Suc i) ts w')"

text \<open>Lines 248-325: one pass of the \<open>while\<close> loop, up to the two atomic writes.\<close>

definition run_cycle ::
  "pylib \<Rightarrow> config \<Rightarrow> string \<Rightarrow> (nat \<Rightarrow> sample) \<Rightarrow> world \<Rightarrow> exc + world" where
  "run_cycle L cfg now_iso samples w =
     (case run_targets L cfg now_iso samples 0 (cfg_targets cfg) (w\<lparr>snapshot_by_host := []\<rparr>) of
        Inl e \<Rightarrow> Inl e
      | Inr w' \<Rightarrow>
          Inr (w'\<lparr>status_json := Doc (JObj (snapshot_by_host w')),
                 state_json := Doc (JObj (state w'))\<rparr>))"

text \<open>
  The first passes of the \<open>while True\<close> loop, one per element of the list (the value of
  \<open>iso_now()\<close> and the samples of that pass).
\<close>

fun run_cycles ::
  "pylib \<Rightarrow> config \<Rightarrow> (string \<times> (nat \<Rightarrow> sample)) list \<Rightarrow> world \<Rightarrow> exc + world" where
  "run_cycles L cfg [] w = Inr w"
| "run_cycles L cfg (c # cs) w =
     (case run_cycle L cfg (fst c) (snd c) w of
        Inl e \<Rightarrow> Inl e
      | Inr w' \<Rightarrow> run_cycles L cfg cs w')"

text \<open>Lines 237-240: the state the loop starts from.\<close>

definition load_state :: "disk_file \<Rightarrow> pydict" where
  "load_state state_file = (case load_json state_file (JObj []) of JObj d \<Rightarrow> d | _ \<Rightarrow> [])"

text \<open>
  Lines 214-240: \<open>main\<close> up to the loop. \<open>None\<close> is the early return when no target is
  configured.
\<close>

definition main_start :: "pylib \<Rightarrow> disk_file \<Rightarrow> world \<Rightarrow> (config \<times> world) option" where
  "main_start L config_json w =
     (let cfg = load_config L config_json
      in if cfg_targets cfg = [] then None
         else Some (cfg, w\<lparr>state := load_state (state_json w)\<rparr>))"

section \<open>Observations\<close>

text \<open>Reading the loop's output back: the field \<open>k\<close> of the record stored under \<open>h\<close>.\<close>

definition entry_field :: "pydict \<Rightarrow> string \<Rightarrow> string \<Rightarrow> json" where
  "entry_field d h k = (case dict_get d h JNull of JObj e \<Rightarrow> dict_get e k JNull | _ \<Rightarrow> JNull)"

text \<open>The body of \<open>telegram_send\<close> returns, or fails with an exception (a subclass of Exception).\<close>

definition returns_or_fails :: "exc option \<Rightarrow> bool" where
  "returns_or_fails a = (case a of None \<Rightarrow> True | Some e \<Rightarrow> is_Exception e)"

text \<open>The property of a written record: it is an object, and a status UP comes with 0 failures.\<close>

definition up_means_zero :: "json \<Rightarrow> bool" where
  "up_means_zero r =
     (case r of
        JObj d \<Rightarrow> dict_get d ''status'' JNull \<noteq> JStr UP \<or> dict_get d ''failures'' JNull = JInt 0
      | _ \<Rightarrow> False)"

text \<open>The values \<open>main\<close> computes from \<open>DEFAULT_CONFIG\<close>.\<close>

definition default_targets :: "target list" where
  "default_targets =
     [\<lparr>name = ''Google DNS'', host = ''8.8.8.8''\<rparr>,
      \<lparr>name = ''Cloudflare DNS'', host = ''1.1.1.1''\<rparr>,
      \<lparr>name = ''Router'', host = ''192.168.1.1''\<rparr>]"

definition default_values :: config where
  "default_values =
     \<lparr>cfg_interval = 3, cfg_timeout_ms = 1200, cfg_degraded_ms = 120, cfg_fail_threshold = 2,
      cfg_tg_enabled = False, cfg_tg_token = [], cfg_tg_chat = [], cfg_tg_cooldown = 60,
      cfg_targets = default_targets\<rparr>"

section \<open>Examples\<close>

text \<open>
  The difference computed on the reals. The runtime's subtraction gives the same result
  whenever this difference is a double, as it is for operands that are integers below
  \<open>2^53\<close>; the examples use it on such operands only.
\<close>

fun exact_sub :: "pyfloat \<Rightarrow> pyfloat \<Rightarrow> pyfloat" where
  "exact_sub NaN y = NaN"
| "exact_sub x NaN = NaN"
| "exact_sub (Finite a) (Finite b) = Finite (a - b)"
| "exact_sub (Finite a) PosInf = NegInf"
| "exact_sub (Finite a) NegInf = PosInf"
| "exact_sub PosInf PosInf = NaN"
| "exact_sub PosInf y = PosInf"
| "exact_sub NegInf NegInf = NaN"
| "exact_sub NegInf y = NegInf"

text \<open>
  An instance of the runtime operations for the examples. None of them converts a string or
  a large int to a number or prints a number or a container, and they subtract only integers
  below \<open>2^53\<close>, on which the runtime's subtraction is \<open>exact_sub\<close>.
\<close>

definition example_lib :: pylib where
  "example_lib =
     \<lparr>int_of_str = (\<lambda>s. None), float_of_str = (\<lambda>s. None), repr_of = (\<lambda>j. ''?''),
      float_minus = exact_sub, float_of_big_int = (\<lambda>i. None)\<rparr>"

text \<open>One target; a configuration with the notifier enabled, and two variants of it.\<close>

definition example_target :: target where
  "example_target = \<lparr>name = ''Router'', host = ''192.168.1.1''\<rparr>"

definition example_cfg :: config where
  "example_cfg =
     \<lparr>cfg_interval = 3, cfg_timeout_ms = 1200, cfg_degraded_ms = 120, cfg_fail_threshold = 3,
      cfg_tg_enabled = True, cfg_tg_token = ''token'', cfg_tg_chat = ''chat'',
      cfg_tg_cooldown = 60, cfg_targets = [example_target]\<rparr>"

definition alert_cfg :: config where
  "alert_cfg = example_cfg\<lparr>cfg_fail_threshold := 1\<rparr>"

definition silent_cfg :: config where
  "silent_cfg = example_cfg\<lparr>cfg_fail_threshold := 1, cfg_tg_enabled := False\<rparr>"

text \<open>
  A world with nothing stored, and one where the target was seen before with the given status
  and failure count and no alert was ever sent.
\<close>

definition empty_world :: world where
  "empty_world =
     \<lparr>state = [], snapshot_by_host = [], status_json = Missing, state_json = Missing,
      history_jsonl = [], alerts_jsonl = [], telegram_calls = []\<rparr>"

definition seen_world :: "string \<Rightarrow> int \<Rightarrow> world" where
  "seen_world st f =
     empty_world\<lparr>state := [(host example_target, JObj (state_entry st f JNull (Finite 0)))]\<rparr>"

text \<open>A world where the target was seen before, UP, and no last alert time is stored.\<close>

definition never_alerted_world :: world where
  "never_alerted_world =
     empty_world\<lparr>state := [(host example_target, JObj [(''status'', JStr ''UP'')])]\<rparr>"

text \<open>What an iteration observes: no answer, or an answer after \<open>ms\<close> milliseconds.\<close>

definition unreachable :: "real \<Rightarrow> sample" where
  "unreachable now =
     \<lparr>ping_ok = False, ping_latency = None, time_now = now, urlopen_raises = None\<rparr>"

definition reachable :: "real \<Rightarrow> real \<Rightarrow> sample" where
  "reachable ms now =
     \<lparr>ping_ok = True, ping_latency = Some (Finite ms), time_now = now, urlopen_raises = None\<rparr>"

text \<open>
  The world after the target of \<open>seen_world UP 0\<close> went down, under \<open>silent_cfg\<close>, at
  time 1000.
\<close>

definition after_silent_alert :: world where
  "after_silent_alert =
     \<lparr>state =
        [(''192.168.1.1'',
          JObj [(''status'', JStr ''DOWN''), (''failures'', JInt 1), (''last_seen'', JNull),
                (''last_alert_ts'', JFloat (Finite 0))])],
      snapshot_by_host =
        [(''192.168.1.1'',
          JObj [(''name'', JStr ''Router''), (''host'', JStr ''192.168.1.1''),
                (''status'', JStr ''DOWN''), (''last_latency_ms'', JNull),
                (''failures'', JInt 1), (''last_seen'', JNull), (''updated_at'', JStr ''t1'')])],
      status_json = Missing, state_json = Missing,
      history_jsonl =
        [JObj [(''name'', JStr ''Router''), (''host'', JStr ''192.168.1.1''),
               (''status'', JStr ''DOWN''), (''last_latency_ms'', JNull),
               (''failures'', JInt 1), (''last_seen'', JNull), (''updated_at'', JStr ''t1'')]],
      alerts_jsonl =
        [JObj [(''ts'', JStr ''t1''), (''name'', JStr ''Router''), (''host'', JStr ''192.168.1.1''),
               (''from'', JStr ''UP''), (''to'', JStr ''DOWN'')]],
      telegram_calls = []\<rparr>"

text \<open>
  A configuration with an interval, a timeout, a failure threshold and a cooldown out of
  range, and no degraded threshold.
\<close>

definition out_of_range_cfg :: pydict where
  "out_of_range_cfg =
     [(''interval_seconds'', JInt (- 4)), (''timeout_ms'', JInt 99999),
      (''fail_threshold'', JInt 500),
      (''telegram'', JObj [(''cooldown_seconds'', JInt 2)])]"

text \<open>
  A state file that is JSON and holds, for the third default target, a failure count that is
  not a number; the world \<open>main\<close> starts the loop with when it finds that file; and an
  environment in which every target answers.
\<close>

definition ill_typed_state :: json where
  "ill_typed_state =
     JObj [(''192.168.1.1'', JObj [(''status'', JStr ''UP''), (''failures'', JList [JInt 1])])]"

definition ill_typed_world :: world where
  "ill_typed_world =
     \<lparr>state =
        [(''192.168.1.1'', JObj [(''status'', JStr ''UP''), (''failures'', JList [JInt 1])])],
      snapshot_by_host = [], status_json = Missing, state_json = Doc ill_typed_state,
      history_jsonl = [], alerts_jsonl = [], telegram_calls = []\<rparr>"

definition always_reachable :: "nat \<Rightarrow> sample" where
  "always_reachable i = reachable 20 1000"

text \<open>A configuration that names the same host twice, a blank host and a non-object.\<close>

definition duplicate_cfg :: pydict where
  "duplicate_cfg =
     [(''targets'', JList
        [JObj [(''name'', JStr ''A''), (''host'', JStr ''10.0.0.1'')],
         JObj [(''name'', JStr '' ''), (''host'', JStr '' 10.0.0.1 '')],
         JObj [(''name'', JStr ''C''), (''host'', JStr '' '')],
         JStr ''10.0.0.2''])]"

section \<open>Reading and writing the records\<close>

lemma dict_get_simps:
  "dict_get [] k d = d"
  "dict_get ((k', v) # kvs) k d = (if k' = k then v else dict_get kvs k d)"
  by (simp_all add: dict_get_def)

lemma dict_get_update:
  "dict_get (AList.update h v st) h' d = (if h' = h then v else dict_get st h' d)"
  by (simp add: dict_get_def update_conv')

lemma entry_field_update:
  "entry_field (AList.update h (JObj e) st) h k = dict_get e k JNull"
  by (simp add: entry_field_def dict_get_update)

lemma read_prev_back:
  "read_prev L (AList.update h (JObj (state_entry eff f ls ts)) st) h
     = Inr \<lparr>prev_status = eff, prev_failures = f, prev_last_alert_ts = ts, prev_last_seen = ls\<rparr>"
  by (simp add: read_prev_def dict_get_update dict_get_simps state_entry_def py_or_def Let_def)

lemma read_prev_empty:
  "read_prev L [] h = Inr \<lparr>prev_status = UNKNOWN, prev_failures = 0,
      prev_last_alert_ts = Finite 0, prev_last_seen = JNull\<rparr>"
  by (simp add: read_prev_def dict_get_simps py_or_def UNKNOWN_def)

lemma read_prev_entry:
  "map_of st h = Some (JObj (state_entry eff f ls ts)) \<Longrightarrow>
   read_prev L st h
     = Inr \<lparr>prev_status = eff, prev_failures = f, prev_last_alert_ts = ts, prev_last_seen = ls\<rparr>"
  by (simp add: read_prev_def dict_get_def state_entry_def py_or_def Let_def)

lemma read_prev_absent:
  "map_of st h = None \<Longrightarrow>
   read_prev L st h = Inr \<lparr>prev_status = UNKNOWN, prev_failures = 0,
      prev_last_alert_ts = Finite 0, prev_last_seen = JNull\<rparr>"
  by (simp add: read_prev_def dict_get_def py_or_def UNKNOWN_def)

lemma read_prev_seen_world:
  "read_prev L (state (seen_world st f)) (host example_target)
     = Inr \<lparr>prev_status = st, prev_failures = f, prev_last_alert_ts = Finite 0,
            prev_last_seen = JNull\<rparr>"
  by (simp add: seen_world_def read_prev_entry)

lemma telegram_send_swallow:
  "returns_or_fails a \<Longrightarrow> telegram_send tok chat msg a = Inr ()"
  by (auto simp: returns_or_fails_def telegram_send_def split: option.splits)

lemma process_target_result:
  fixes L cfg now_iso t s w pv
  defines "failures \<equiv> update_failures (ping_ok s) (prev_failures pv)"
  defines "effective \<equiv>
     effective_status (classify_status (ping_ok s) (ping_latency s) (cfg_degraded_ms cfg))
       failures (cfg_fail_threshold cfg)"
  defines "changed \<equiv> status_change effective (prev_status pv)"
  defines "due \<equiv> changed \<and> notify_due L cfg (time_now s) (prev_last_alert_ts pv)"
  defines "item \<equiv> item_of now_iso t effective (ping_latency s) failures (ping_ok s)
     (if ping_ok s then JStr now_iso else prev_last_seen pv)"
  assumes "read_prev L (state w) (host t) = Inr pv" "returns_or_fails (urlopen_raises s)"
  shows "process_target L cfg now_iso t s w =
     Inr (w\<lparr>alerts_jsonl :=
             alerts_jsonl w
               @ (if changed then [alert_obj now_iso t (prev_status pv) effective] else []),
           telegram_calls :=
             telegram_calls w @ (if due then [alert_msg t (prev_status pv) effective] else []),
           snapshot_by_host := AList.update (host t) (JObj item) (snapshot_by_host w),
           history_jsonl := history_jsonl w @ [JObj item],
           state :=
             AList.update (host t)
               (JObj (state_entry effective failures (dict_get item ''last_seen'' JNull)
                  (if due then Finite (time_now s) else prev_last_alert_ts pv)))
               (state w)\<rparr>)"
  using assms(6,7) unfolding failures_def effective_def changed_def due_def item_def
  by (simp add: process_target_def Let_def telegram_send_swallow)

lemma item_fields:
  "dict_get (item_of now_iso t eff lat f ok ls) ''status'' d = JStr eff"
  "dict_get (item_of now_iso t eff lat f ok ls) ''failures'' d = JInt f"
  by (simp_all add: item_of_def dict_get_simps)

lemma entry_fields:
  "dict_get (state_entry eff f ls ts) ''status'' d = JStr eff"
  "dict_get (state_entry eff f ls ts) ''failures'' d = JInt f"
  "dict_get (state_entry eff f ls ts) ''last_alert_ts'' d = JFloat ts"
  "dict_get (state_entry eff f ls ts) ''last_seen'' d = ls"
  by (simp_all add: state_entry_def dict_get_simps)

section \<open>The classifier\<close>

text \<open>
  C5: \<open>classify_status\<close> returns DOWN when the sample is unreachable; UP when it is reachable
  and the latency is unknown, for any threshold; DEGRADED when it is reachable and the latency
  is at least the threshold, the boundary included (a latency equal to the threshold is
  DEGRADED, the threshold minus 1 is UP); and UP otherwise.
\<close>

theorem classify_status_cases:
  "classify_status False lat d = DOWN
   \<and> classify_status True None d = UP
   \<and> classify_status True (Some l) d = (if float_ge_int l d then DEGRADED else UP)
   \<and> float_ge_int (Finite r) d = (real_of_int d \<le> r)
   \<and> classify_status True (Some (Finite (real_of_int d))) d = DEGRADED
   \<and> classify_status True (Some (Finite (real_of_int d - 1))) d = UP"
  by simp

section \<open>Flap damping\<close>

lemma effective_status_DOWN_iff:
  "effective_status cur f th = DOWN \<longleftrightarrow> cur = DOWN \<and> th \<le> f"
  by (auto simp: effective_status_def DOWN_def DEGRADED_def)

lemma process_target_unreachable:
  assumes "read_prev L (state w) (host t) = Inr pv" "\<not> ping_ok s"
    "returns_or_fails (urlopen_raises s)"
  shows "\<exists>w' pv'. process_target L cfg n t s w = Inr w'
     \<and> read_prev L (state w') (host t) = Inr pv'
     \<and> prev_failures pv' = prev_failures pv + 1
     \<and> entry_field (state w') (host t) ''status''
         = JStr (if prev_failures pv + 1 < cfg_fail_threshold cfg then DEGRADED else DOWN)"
  using assms
  by (simp add: process_target_result read_prev_back entry_field_update entry_fields
        update_failures_def effective_status_def)

text \<open>
  C1: in every iteration that reads its previous state and is not interrupted, the effective
  status written for the target is DOWN only when the raw classification is DOWN and the
  updated failure count has reached the threshold, and a raw DOWN under the threshold is
  written as DEGRADED. With a threshold of 3 and no failure so far, three unreachable samples
  in a row give DEGRADED, DEGRADED, DOWN.
\<close>

theorem effective_down_needs_threshold:
  fixes L cfg t pv s w
  defines "cur \<equiv> classify_status (ping_ok s) (ping_latency s) (cfg_degraded_ms cfg)"
  defines "f' \<equiv> update_failures (ping_ok s) (prev_failures pv)"
  shows
  "(read_prev L (state w) (host t) = Inr pv \<and> returns_or_fails (urlopen_raises s) \<longrightarrow>
     (\<exists>w'. process_target L cfg now_iso t s w = Inr w'
        \<and> entry_field (state w') (host t) ''failures'' = JInt f'
        \<and> entry_field (state w') (host t) ''status''
            = JStr (effective_status cur f' (cfg_fail_threshold cfg))
        \<and> entry_field (snapshot_by_host w') (host t) ''status''
            = JStr (effective_status cur f' (cfg_fail_threshold cfg))
        \<and> (effective_status cur f' (cfg_fail_threshold cfg) = DOWN
             \<longleftrightarrow> cur = DOWN \<and> cfg_fail_threshold cfg \<le> f')
        \<and> (cur = DOWN \<and> f' < cfg_fail_threshold cfg
             \<longrightarrow> effective_status cur f' (cfg_fail_threshold cfg) = DEGRADED)))
   \<and> (read_prev L (state w) (host t) = Inr pv \<and> prev_failures pv = 0
        \<and> cfg_fail_threshold cfg = 3
        \<and> \<not> ping_ok sa \<and> \<not> ping_ok sb \<and> \<not> ping_ok sc
        \<and> returns_or_fails (urlopen_raises sa) \<and> returns_or_fails (urlopen_raises sb)
        \<and> returns_or_fails (urlopen_raises sc) \<longrightarrow>
       (\<exists>w1 w2 w3.
           process_target L cfg na t sa w = Inr w1
         \<and> process_target L cfg nb t sb w1 = Inr w2
         \<and> process_target L cfg nc t sc w2 = Inr w3
         \<and> entry_field (state w1) (host t) ''status'' = JStr DEGRADED
         \<and> entry_field (state w2) (host t) ''status'' = JStr DEGRADED
         \<and> entry_field (state w3) (host t) ''status'' = JStr DOWN))"
proof (intro conjI impI)
  assume a: "read_prev L (state w) (host t) = Inr pv \<and> returns_or_fails (urlopen_raises s)"
  show "\<exists>w'. process_target L cfg now_iso t s w = Inr w'
        \<and> entry_field (state w') (host t) ''failures'' = JInt f'
        \<and> entry_field (state w') (host t) ''status''
            = JStr (effective_status cur f' (cfg_fail_threshold cfg))
        \<and> entry_field (snapshot_by_host w') (host t) ''status''
            = JStr (effective_status cur f' (cfg_fail_threshold cfg))
        \<and> (effective_status cur f' (cfg_fail_threshold cfg) = DOWN
             \<longleftrightarrow> cur = DOWN \<and> cfg_fail_threshold cfg \<le> f')
        \<and> (cur = DOWN \<and> f' < cfg_fail_threshold cfg
             \<longrightarrow> effective_status cur f' (cfg_fail_threshold cfg) = DEGRADED)"
    using a unfolding cur_def f'_def
    by (simp add: process_target_result entry_field_update entry_fields item_fields
          effective_status_DOWN_iff)
       (simp add: effective_status_def)
next
  assume c: "read_prev L (state w) (host t) = Inr pv \<and> prev_failures pv = 0
        \<and> cfg_fail_threshold cfg = 3
        \<and> \<not> ping_ok sa \<and> \<not> ping_ok sb \<and> \<not> ping_ok sc
        \<and> returns_or_fails (urlopen_raises sa) \<and> returns_or_fails (urlopen_raises sb)
        \<and> returns_or_fails (urlopen_raises sc)"
  from c process_target_unreachable [where L = L and w = w and t = t and pv = pv and s = sa and n = na and cfg = cfg]
  obtain w1 pv1 where 1: "process_target L cfg na t sa w = Inr w1"
      "read_prev L (state w1) (host t) = Inr pv1" "prev_failures pv1 = 1"
      "entry_field (state w1) (host t) ''status'' = JStr DEGRADED"
    by auto
  from c 1 process_target_unreachable [where L = L and w = w1 and t = t and pv = pv1 and s = sb and n = nb and cfg = cfg]
  obtain w2 pv2 where 2: "process_target L cfg nb t sb w1 = Inr w2"
      "read_prev L (state w2) (host t) = Inr pv2" "prev_failures pv2 = 2"
      "entry_field (state w2) (host t) ''status'' = JStr DEGRADED"
    by auto
  from c 2 process_target_unreachable [where L = L and w = w2 and t = t and pv = pv2 and s = sc and n = nc and cfg = cfg]
  obtain w3 where 3: "process_target L cfg nc t sc w2 = Inr w3"
      "entry_field (state w3) (host t) ''status'' = JStr DOWN"
    by auto
  from 1 2 3 show "\<exists>w1 w2 w3.
           process_target L cfg na t sa w = Inr w1
         \<and> process_target L cfg nb t sb w1 = Inr w2
         \<and> process_target L cfg nc t sc w2 = Inr w3
         \<and> entry_field (state w1) (host t) ''status'' = JStr DEGRADED
         \<and> entry_field (state w2) (host t) ''status'' = JStr DEGRADED
         \<and> entry_field (state w3) (host t) ''status'' = JStr DOWN"
    by blast
qed

theorem effective_down_needs_threshold_witness:
  "read_prev example_lib (state empty_world) (host example_target)
     = Inr \<lparr>prev_status = UNKNOWN, prev_failures = 0, prev_last_alert_ts = Finite 0,
            prev_last_seen = JNull\<rparr>
   \<and> returns_or_fails (urlopen_raises (unreachable 1000))
   \<and> cfg_fail_threshold example_cfg = 3
   \<and> \<not> ping_ok (unreachable 1000)
   \<and> (\<exists>w1 w2 w3.
           process_target example_lib example_cfg ''t1'' example_target (unreachable 1000)
             empty_world = Inr w1
         \<and> process_target example_lib example_cfg ''t2'' example_target (unreachable 1003) w1
             = Inr w2
         \<and> process_target example_lib example_cfg ''t3'' example_target (unreachable 1006) w2
             = Inr w3
         \<and> entry_field (state w1) (host example_target) ''status'' = JStr DEGRADED
         \<and> entry_field (state w2) (host example_target) ''status'' = JStr DEGRADED
         \<and> entry_field (state w3) (host example_target) ''status'' = JStr DOWN)"
  using effective_down_needs_threshold [where L = example_lib and w = empty_world
      and t = example_target and cfg = example_cfg and s = "unreachable 1000"
      and pv = "\<lparr>prev_status = UNKNOWN, prev_failures = 0, prev_last_alert_ts = Finite 0,
            prev_last_seen = JNull\<rparr>"
      and sa = "unreachable 1000" and sb = "unreachable 1003" and sc = "unreachable 1006"
      and na = "''t1''" and nb = "''t2''" and nc = "''t3''" and now_iso = "''t1''"]
  by (simp add: read_prev_empty empty_world_def unreachable_def returns_or_fails_def
        example_cfg_def)

text \<open>
  C3: in every iteration that reads its previous state and is not interrupted, the failure
  count written for the target is exactly 0 after a reachable sample, whatever the previous
  count was, and the previous count plus 1 after an unreachable sample.
\<close>

theorem failures_reset_or_increment:
  assumes "read_prev L (state w) (host t) = Inr pv" "returns_or_fails (urlopen_raises s)"
  shows "\<exists>w'. process_target L cfg now_iso t s w = Inr w'
     \<and> update_failures (ping_ok s) (prev_failures pv)
         = (if ping_ok s then 0 else prev_failures pv + 1)
     \<and> entry_field (state w') (host t) ''failures''
         = JInt (if ping_ok s then 0 else prev_failures pv + 1)
     \<and> entry_field (snapshot_by_host w') (host t) ''failures''
         = JInt (if ping_ok s then 0 else prev_failures pv + 1)
     \<and> (\<exists>pv'. read_prev L (state w') (host t) = Inr pv'
           \<and> prev_failures pv' = (if ping_ok s then 0 else prev_failures pv + 1))"
  using assms
  by (simp add: process_target_result entry_field_update entry_fields item_fields
        read_prev_back update_failures_def)

theorem failures_reset_or_increment_witness:
  "read_prev example_lib (state (seen_world DEGRADED 7)) (host example_target)
     = Inr \<lparr>prev_status = DEGRADED, prev_failures = 7, prev_last_alert_ts = Finite 0,
            prev_last_seen = JNull\<rparr>
   \<and> returns_or_fails (urlopen_raises (reachable 20 1000))
   \<and> (\<exists>w'. process_target example_lib example_cfg ''t1'' example_target (reachable 20 1000)
               (seen_world DEGRADED 7) = Inr w'
          \<and> entry_field (state w') (host example_target) ''failures'' = JInt 0)
   \<and> (\<exists>w'. process_target example_lib example_cfg ''t1'' example_target (unreachable 1000)
               (seen_world DEGRADED 7) = Inr w'
          \<and> entry_field (state w') (host example_target) ''failures'' = JInt 8)"
  using failures_reset_or_increment [where L = example_lib and w = "seen_world DEGRADED 7"
      and t = example_target and cfg = example_cfg and s = "reachable 20 1000"
      and now_iso = "''t1''", OF read_prev_seen_world]
    failures_reset_or_increment [where L = example_lib and w = "seen_world DEGRADED 7"
      and t = example_target and cfg = example_cfg and s = "unreachable 1000"
      and now_iso = "''t1''", OF read_prev_seen_world]
  by (simp add: read_prev_seen_world reachable_def unreachable_def returns_or_fails_def) blast

section \<open>Alert events\<close>

text \<open>
  C4: no alert event is appended in a target's first observed iteration (no entry for its
  host in the state, so the previous status is UNKNOWN), even when the first classification is
  DOWN; in every iteration an alert event is appended exactly when the new effective status
  differs from the previous status and the previous status is not UNKNOWN.
\<close>

theorem alert_event_iff_known_change:
  fixes L cfg t pv s w now_iso
  defines "eff \<equiv>
     effective_status (classify_status (ping_ok s) (ping_latency s) (cfg_degraded_ms cfg))
       (update_failures (ping_ok s) (prev_failures pv)) (cfg_fail_threshold cfg)"
  shows
  "(read_prev L (state w) (host t) = Inr pv \<and> returns_or_fails (urlopen_raises s) \<longrightarrow>
     (\<exists>w'. process_target L cfg now_iso t s w = Inr w'
        \<and> entry_field (state w') (host t) ''status'' = JStr eff
        \<and> alerts_jsonl w'
            = alerts_jsonl w
              @ (if eff \<noteq> prev_status pv \<and> prev_status pv \<noteq> UNKNOWN
                 then [alert_obj now_iso t (prev_status pv) eff] else [])))
   \<and> (map_of (state w) (host t) = None \<and> returns_or_fails (urlopen_raises s) \<longrightarrow>
       (\<exists>w'. process_target L cfg now_iso t s w = Inr w' \<and> alerts_jsonl w' = alerts_jsonl w))"
proof (intro conjI impI)
  assume "read_prev L (state w) (host t) = Inr pv \<and> returns_or_fails (urlopen_raises s)"
  then show "\<exists>w'. process_target L cfg now_iso t s w = Inr w'
        \<and> entry_field (state w') (host t) ''status'' = JStr eff
        \<and> alerts_jsonl w'
            = alerts_jsonl w
              @ (if eff \<noteq> prev_status pv \<and> prev_status pv \<noteq> UNKNOWN
                 then [alert_obj now_iso t (prev_status pv) eff] else [])"
    unfolding eff_def
    by (simp add: process_target_result entry_field_update entry_fields status_change_def)
next
  assume a: "map_of (state w) (host t) = None \<and> returns_or_fails (urlopen_raises s)"
  then have "read_prev L (state w) (host t) = Inr \<lparr>prev_status = UNKNOWN, prev_failures = 0,
      prev_last_alert_ts = Finite 0, prev_last_seen = JNull\<rparr>"
    by (simp add: read_prev_absent)
  with a show "\<exists>w'. process_target L cfg now_iso t s w = Inr w' \<and> alerts_jsonl w' = alerts_jsonl w"
    by (simp add: process_target_result status_change_def)
qed

theorem alert_event_iff_known_change_witness:
  "map_of (state empty_world) (host example_target) = None
   \<and> read_prev example_lib (state (seen_world UP 0)) (host example_target)
       = Inr \<lparr>prev_status = UP, prev_failures = 0, prev_last_alert_ts = Finite 0,
              prev_last_seen = JNull\<rparr>
   \<and> returns_or_fails (urlopen_raises (unreachable 1000))
   \<and> (\<exists>w'. process_target example_lib (example_cfg\<lparr>cfg_fail_threshold := 1\<rparr>) ''t1''
               example_target (unreachable 1000) empty_world = Inr w'
          \<and> alerts_jsonl w' = [])
   \<and> (\<exists>w'. process_target example_lib (example_cfg\<lparr>cfg_fail_threshold := 1\<rparr>) ''t1''
               example_target (unreachable 1000) (seen_world UP 0) = Inr w'
          \<and> entry_field (state w') (host example_target) ''status'' = JStr DOWN
          \<and> alerts_jsonl w' = [alert_obj ''t1'' example_target UP DOWN])"
proof -
  let ?cfg = "example_cfg\<lparr>cfg_fail_threshold := 1\<rparr>"
  let ?pv = "\<lparr>prev_status = UP, prev_failures = 0, prev_last_alert_ts = Finite 0,
              prev_last_seen = JNull\<rparr>"
  have absent: "map_of (state empty_world) (host example_target) = None"
    by (simp add: empty_world_def)
  have seen: "read_prev example_lib (state (seen_world UP 0)) (host example_target) = Inr ?pv"
    by (rule read_prev_seen_world)
  have quiet: "returns_or_fails (urlopen_raises (unreachable 1000))"
    by (simp add: unreachable_def returns_or_fails_def)
  have eff: "effective_status
       (classify_status (ping_ok (unreachable 1000)) (ping_latency (unreachable 1000))
          (cfg_degraded_ms ?cfg))
       (update_failures (ping_ok (unreachable 1000)) (prev_failures ?pv))
       (cfg_fail_threshold ?cfg) = DOWN"
    by (simp add: unreachable_def update_failures_def effective_status_def)
  have ne: "DOWN \<noteq> UP" "UP \<noteq> UNKNOWN"
    by (simp_all add: UP_def DOWN_def UNKNOWN_def)
  from alert_event_iff_known_change [where L = example_lib and w = empty_world
      and t = example_target and cfg = ?cfg and s = "unreachable 1000" and now_iso = "''t1''"]
    absent quiet
  have first: "\<exists>w'. process_target example_lib ?cfg ''t1'' example_target (unreachable 1000)
      empty_world = Inr w' \<and> alerts_jsonl w' = alerts_jsonl empty_world"
    by blast
  from alert_event_iff_known_change [where L = example_lib and w = "seen_world UP 0"
      and t = example_target and cfg = ?cfg and s = "unreachable 1000" and now_iso = "''t1''"
      and pv = ?pv] seen quiet
  have later: "\<exists>w'. process_target example_lib ?cfg ''t1'' example_target (unreachable 1000)
      (seen_world UP 0) = Inr w'
      \<and> entry_field (state w') (host example_target) ''status'' = JStr DOWN
      \<and> alerts_jsonl w' = alerts_jsonl (seen_world UP 0) @ [alert_obj ''t1'' example_target UP DOWN]"
    unfolding eff using ne by simp
  from absent seen quiet first later show ?thesis
    by (simp add: empty_world_def seen_world_def)
qed

section \<open>Status UP and the failure count\<close>

lemma effective_UP_failures:
  "effective_status (classify_status ok lat d) (update_failures ok f) th = UP \<Longrightarrow>
   update_failures ok f = 0"
  by (auto simp: effective_status_def update_failures_def UP_def DOWN_def DEGRADED_def
      split: if_splits)

lemma up_means_zero_item:
  "up_means_zero (JObj (item_of now_iso t
      (effective_status (classify_status ok lat d) (update_failures ok f) th)
      lat (update_failures ok f) ok ls))"
  using effective_UP_failures [of ok lat d f th]
  by (auto simp: up_means_zero_def item_fields)

lemma up_means_zero_entry:
  "up_means_zero (JObj (state_entry
      (effective_status (classify_status ok lat d) (update_failures ok f) th)
      (update_failures ok f) ls ts))"
  using effective_UP_failures [of ok lat d f th]
  by (auto simp: up_means_zero_def entry_fields)

lemma process_target_writes:
  assumes "process_target L cfg now_iso t s w = Inr w'"
  shows "\<exists>item entry. up_means_zero item \<and> up_means_zero entry
     \<and> history_jsonl w' = history_jsonl w @ [item]
     \<and> map_of (snapshot_by_host w') = (map_of (snapshot_by_host w))(host t \<mapsto> item)
     \<and> map_of (state w') = (map_of (state w))(host t \<mapsto> entry)"
proof (cases "read_prev L (state w) (host t)")
  case (Inl e)
  with assms show ?thesis by (simp add: process_target_def)
next
  case (Inr pv)
  let ?f = "update_failures (ping_ok s) (prev_failures pv)"
  let ?eff = "effective_status
     (classify_status (ping_ok s) (ping_latency s) (cfg_degraded_ms cfg)) ?f
     (cfg_fail_threshold cfg)"
  let ?due = "status_change ?eff (prev_status pv)
     \<and> notify_due L cfg (time_now s) (prev_last_alert_ts pv)"
  let ?sent = "if ?due
      then telegram_send (cfg_tg_token cfg) (cfg_tg_chat cfg)
        (alert_msg t (prev_status pv) ?eff) (urlopen_raises s)
      else Inr ()"
  let ?item = "item_of now_iso t ?eff (ping_latency s) ?f (ping_ok s)
     (if ping_ok s then JStr now_iso else prev_last_seen pv)"
  let ?entry = "state_entry ?eff ?f (dict_get ?item ''last_seen'' JNull)
     (if ?due then Finite (time_now s) else prev_last_alert_ts pv)"
  show ?thesis
  proof (cases ?sent)
    case (Inl e)
    with assms Inr show ?thesis
      by (simp add: process_target_def Let_def del: classify_status.simps)
  next
    case sent: (Inr u)
    from assms Inr sent have
        h: "history_jsonl w' = history_jsonl w @ [JObj ?item]"
      and sn: "snapshot_by_host w' = AList.update (host t) (JObj ?item) (snapshot_by_host w)"
      and st: "state w' = AList.update (host t) (JObj ?entry) (state w)"
      by (auto simp add: process_target_def Let_def simp del: classify_status.simps)
    have i: "up_means_zero (JObj ?item)"
      by (rule up_means_zero_item)
    have e: "up_means_zero (JObj ?entry)"
      by (rule up_means_zero_entry)
    have m1: "map_of (snapshot_by_host w') = (map_of (snapshot_by_host w))(host t \<mapsto> JObj ?item)"
      unfolding sn by (rule update_conv')
    have m2: "map_of (state w') = (map_of (state w))(host t \<mapsto> JObj ?entry)"
      unfolding st by (rule update_conv')
    show ?thesis
    proof (rule exI [of _ "JObj ?item"], rule exI [of _ "JObj ?entry"], intro conjI)
      show "up_means_zero (JObj ?item)" by (rule i)
      show "up_means_zero (JObj ?entry)" by (rule e)
      show "history_jsonl w' = history_jsonl w @ [JObj ?item]" by (rule h)
      show "map_of (snapshot_by_host w') = (map_of (snapshot_by_host w))(host t \<mapsto> JObj ?item)"
        by (rule m1)
      show "map_of (state w') = (map_of (state w))(host t \<mapsto> JObj ?entry)"
        by (rule m2)
    qed
  qed
qed

lemma run_targets_writes:
  "run_targets L cfg now_iso samples i ts w = Inr w' \<Longrightarrow>
   (\<exists>new. history_jsonl w' = history_jsonl w @ new \<and> (\<forall>r\<in>set new. up_means_zero r))
   \<and> (\<forall>h. map_of (snapshot_by_host w') h = map_of (snapshot_by_host w) h
          \<or> (\<exists>r. map_of (snapshot_by_host w') h = Some r \<and> up_means_zero r))
   \<and> (\<forall>h. map_of (state w') h = map_of (state w) h
          \<or> (\<exists>r. map_of (state w') h = Some r \<and> up_means_zero r))"
proof (induction ts arbitrary: i w)
  case Nil
  then show ?case by simp
next
  case (Cons t ts)
  from Cons.prems obtain w1 where
      1: "process_target L cfg now_iso t (samples i) w = Inr w1"
    and 2: "run_targets L cfg now_iso samples (Suc i) ts w1 = Inr w'"
    by (auto split: sum.splits)
  from process_target_writes [OF 1] obtain item entry where
      s: "up_means_zero item" "up_means_zero entry"
        "history_jsonl w1 = history_jsonl w @ [item]"
        "map_of (snapshot_by_host w1) = (map_of (snapshot_by_host w))(host t \<mapsto> item)"
        "map_of (state w1) = (map_of (state w))(host t \<mapsto> entry)"
    by blast
  from Cons.IH [OF 2] obtain new where
      r: "history_jsonl w' = history_jsonl w1 @ new" "\<forall>r\<in>set new. up_means_zero r"
        "\<forall>h. map_of (snapshot_by_host w') h = map_of (snapshot_by_host w1) h
          \<or> (\<exists>r. map_of (snapshot_by_host w') h = Some r \<and> up_means_zero r)"
        "\<forall>h. map_of (state w') h = map_of (state w1) h
          \<or> (\<exists>r. map_of (state w') h = Some r \<and> up_means_zero r)"
    by blast
  have hist: "\<exists>new. history_jsonl w' = history_jsonl w @ new \<and> (\<forall>r\<in>set new. up_means_zero r)"
  proof (intro exI conjI)
    show "history_jsonl w' = history_jsonl w @ (item # new)"
      using s(3) r(1) by simp
    show "\<forall>r\<in>set (item # new). up_means_zero r"
      using s(1) r(2) by simp
  qed
  have "\<forall>h. map_of (snapshot_by_host w') h = map_of (snapshot_by_host w) h
          \<or> (\<exists>r. map_of (snapshot_by_host w') h = Some r \<and> up_means_zero r)"
  proof
    fix h
    from r(3) [rule_format, of h] s(1) show "map_of (snapshot_by_host w') h = map_of (snapshot_by_host w) h
          \<or> (\<exists>r. map_of (snapshot_by_host w') h = Some r \<and> up_means_zero r)"
      unfolding s(4) by (cases "h = host t") auto
  qed
  moreover have "\<forall>h. map_of (state w') h = map_of (state w) h
          \<or> (\<exists>r. map_of (state w') h = Some r \<and> up_means_zero r)"
  proof
    fix h
    from r(4) [rule_format, of h] s(2) show "map_of (state w') h = map_of (state w) h
          \<or> (\<exists>r. map_of (state w') h = Some r \<and> up_means_zero r)"
      unfolding s(5) by (cases "h = host t") auto
  qed
  ultimately show ?case using hist by (intro conjI)
qed

lemma run_cycle_writes:
  assumes "run_cycle L cfg now_iso samples w = Inr w'"
  shows "(\<exists>new. history_jsonl w' = history_jsonl w @ new \<and> (\<forall>r\<in>set new. up_means_zero r))
   \<and> (\<forall>h r. map_of (snapshot_by_host w') h = Some r \<longrightarrow> up_means_zero r)
   \<and> status_json w' = Doc (JObj (snapshot_by_host w'))
   \<and> state_json w' = Doc (JObj (state w'))
   \<and> (\<forall>h. map_of (state w') h = map_of (state w) h
          \<or> (\<exists>r. map_of (state w') h = Some r \<and> up_means_zero r))"
proof -
  from assms obtain w1 where
      1: "run_targets L cfg now_iso samples 0 (cfg_targets cfg) (w\<lparr>snapshot_by_host := []\<rparr>)
          = Inr w1"
    and 2: "w' = w1\<lparr>status_json := Doc (JObj (snapshot_by_host w1)),
                    state_json := Doc (JObj (state w1))\<rparr>"
    by (auto simp: run_cycle_def split: sum.splits)
  from run_targets_writes [OF 1] have
      h: "\<exists>new. history_jsonl w1 = history_jsonl w @ new \<and> (\<forall>r\<in>set new. up_means_zero r)"
    and sn: "\<forall>h. map_of (snapshot_by_host w1) h = None
          \<or> (\<exists>r. map_of (snapshot_by_host w1) h = Some r \<and> up_means_zero r)"
    and st: "\<forall>h. map_of (state w1) h = map_of (state w) h
          \<or> (\<exists>r. map_of (state w1) h = Some r \<and> up_means_zero r)"
    by simp_all
  from sn have "\<forall>h r. map_of (snapshot_by_host w1) h = Some r \<longrightarrow> up_means_zero r"
    by (metis option.distinct(1) option.inject)
  with h st 2 show ?thesis
    by simp
qed

lemma run_cycles_writes:
  "run_cycles L cfg cs w = Inr w' \<Longrightarrow>
   (\<exists>new. history_jsonl w' = history_jsonl w @ new \<and> (\<forall>r\<in>set new. up_means_zero r))
   \<and> (cs \<noteq> [] \<longrightarrow>
        (\<forall>h r. map_of (snapshot_by_host w') h = Some r \<longrightarrow> up_means_zero r)
        \<and> status_json w' = Doc (JObj (snapshot_by_host w'))
        \<and> state_json w' = Doc (JObj (state w')))
   \<and> (\<forall>h. map_of (state w') h = map_of (state w) h
          \<or> (\<exists>r. map_of (state w') h = Some r \<and> up_means_zero r))"
proof (induction cs arbitrary: w)
  case Nil
  then show ?case by simp
next
  case (Cons c cs)
  from Cons.prems obtain w1 where
      1: "run_cycle L cfg (fst c) (snd c) w = Inr w1"
    and 2: "run_cycles L cfg cs w1 = Inr w'"
    by (auto split: sum.splits)
  note a = run_cycle_writes [OF 1]
  note b = Cons.IH [OF 2]
  from a have a4: "\<forall>h. map_of (state w1) h = map_of (state w) h
          \<or> (\<exists>r. map_of (state w1) h = Some r \<and> up_means_zero r)"
    by blast
  from b have b3: "\<forall>h. map_of (state w') h = map_of (state w1) h
          \<or> (\<exists>r. map_of (state w') h = Some r \<and> up_means_zero r)"
    by blast
  from a b obtain n1 n2 where
      h: "history_jsonl w1 = history_jsonl w @ n1" "\<forall>r\<in>set n1. up_means_zero r"
         "history_jsonl w' = history_jsonl w1 @ n2" "\<forall>r\<in>set n2. up_means_zero r"
    by blast
  have hist: "\<exists>new. history_jsonl w' = history_jsonl w @ new \<and> (\<forall>r\<in>set new. up_means_zero r)"
  proof (intro exI conjI)
    show "history_jsonl w' = history_jsonl w @ (n1 @ n2)" using h by simp
    show "\<forall>r\<in>set (n1 @ n2). up_means_zero r" using h by auto
  qed
  have st: "\<forall>h. map_of (state w') h = map_of (state w) h
          \<or> (\<exists>r. map_of (state w') h = Some r \<and> up_means_zero r)"
  proof
    fix h
    from a4 [rule_format, of h] b3 [rule_format, of h]
    show "map_of (state w') h = map_of (state w) h
          \<or> (\<exists>r. map_of (state w') h = Some r \<and> up_means_zero r)"
      by auto
  qed
  have snap: "(\<forall>h r. map_of (snapshot_by_host w') h = Some r \<longrightarrow> up_means_zero r)
        \<and> status_json w' = Doc (JObj (snapshot_by_host w'))
        \<and> state_json w' = Doc (JObj (state w'))"
  proof (cases cs)
    case Nil
    with 2 have "w' = w1" by simp
    with a show ?thesis by blast
  next
    case (Cons c' cs')
    with b show ?thesis by blast
  qed
  from hist st snap show ?case by simp
qed

text \<open>
  C10: every record the loop writes has status UP only together with failures 0. One
  iteration that reads its previous state and is not interrupted appends such a history line
  and stores such a snapshot entry and such a state entry under its host; after any number of
  passes that return, every history line appended, every snapshot entry (which is also what
  data/status.json holds) and every state entry that was written is of that kind.
\<close>

theorem up_status_has_zero_failures:
  "(read_prev L (state w) (host t) = Inr pv \<and> returns_or_fails (urlopen_raises s) \<longrightarrow>
     (\<exists>w' item entry. process_target L cfg now_iso t s w = Inr w'
        \<and> history_jsonl w' = history_jsonl w @ [item]
        \<and> map_of (snapshot_by_host w') (host t) = Some item
        \<and> map_of (state w') (host t) = Some entry
        \<and> up_means_zero item \<and> up_means_zero entry))
   \<and> (run_cycles L cfg cs w = Inr wn \<longrightarrow>
        (\<exists>new. history_jsonl wn = history_jsonl w @ new \<and> (\<forall>r\<in>set new. up_means_zero r))
        \<and> (cs \<noteq> [] \<longrightarrow>
             (\<forall>h r. map_of (snapshot_by_host wn) h = Some r \<longrightarrow> up_means_zero r)
             \<and> status_json wn = Doc (JObj (snapshot_by_host wn))
             \<and> state_json wn = Doc (JObj (state wn)))
        \<and> (\<forall>h. map_of (state wn) h = map_of (state w) h
               \<or> (\<exists>r. map_of (state wn) h = Some r \<and> up_means_zero r)))"
proof (intro conjI impI)
  assume a: "read_prev L (state w) (host t) = Inr pv \<and> returns_or_fails (urlopen_raises s)"
  then obtain w' where w': "process_target L cfg now_iso t s w = Inr w'"
    by (simp add: process_target_result)
  from process_target_writes [OF w'] obtain item entry where
      "up_means_zero item" "up_means_zero entry"
      "history_jsonl w' = history_jsonl w @ [item]"
      "map_of (snapshot_by_host w') = (map_of (snapshot_by_host w))(host t \<mapsto> item)"
      "map_of (state w') = (map_of (state w))(host t \<mapsto> entry)"
    by blast
  with w' show "\<exists>w' item entry. process_target L cfg now_iso t s w = Inr w'
        \<and> history_jsonl w' = history_jsonl w @ [item]
        \<and> map_of (snapshot_by_host w') (host t) = Some item
        \<and> map_of (state w') (host t) = Some entry
        \<and> up_means_zero item \<and> up_means_zero entry"
    by auto
next
  assume r: "run_cycles L cfg cs w = Inr wn"
  note f = run_cycles_writes [OF r]
  from f show "\<exists>new. history_jsonl wn = history_jsonl w @ new \<and> (\<forall>r\<in>set new. up_means_zero r)"
    by (rule conjunct1)
  from f show "\<forall>h. map_of (state wn) h = map_of (state w) h
               \<or> (\<exists>r. map_of (state wn) h = Some r \<and> up_means_zero r)"
    by simp
  assume "cs \<noteq> []"
  with f show "\<forall>h r. map_of (snapshot_by_host wn) h = Some r \<longrightarrow> up_means_zero r"
    "status_json wn = Doc (JObj (snapshot_by_host wn))"
    "state_json wn = Doc (JObj (state wn))"
    by simp_all
qed

lemma example_run_returns:
  "\<exists>wn. run_cycles example_lib example_cfg
      [(''t1'', \<lambda>i. reachable 20 1000), (''t2'', \<lambda>i. unreachable 1003)] empty_world = Inr wn"
  by (simp add: run_cycle_def process_target_def Let_def example_cfg_def example_target_def
      empty_world_def reachable_def unreachable_def read_prev_def dict_get_def py_or_def
      status_change_def notify_due_def effective_status_def update_failures_def
      state_entry_def item_of_def telegram_send_def UP_def DOWN_def DEGRADED_def UNKNOWN_def)

theorem up_status_has_zero_failures_witness:
  "read_prev example_lib (state (seen_world DEGRADED 7)) (host example_target)
     = Inr \<lparr>prev_status = DEGRADED, prev_failures = 7, prev_last_alert_ts = Finite 0,
            prev_last_seen = JNull\<rparr>
   \<and> returns_or_fails (urlopen_raises (reachable 20 1000))
   \<and> (\<exists>w' item entry.
          process_target example_lib example_cfg ''t1'' example_target (reachable 20 1000)
            (seen_world DEGRADED 7) = Inr w'
        \<and> history_jsonl w' = history_jsonl (seen_world DEGRADED 7) @ [item]
        \<and> map_of (snapshot_by_host w') (host example_target) = Some item
        \<and> map_of (state w') (host example_target) = Some entry
        \<and> up_means_zero item \<and> up_means_zero entry)
   \<and> (\<exists>wn. run_cycles example_lib example_cfg
              [(''t1'', \<lambda>i. reachable 20 1000), (''t2'', \<lambda>i. unreachable 1003)] empty_world
            = Inr wn
        \<and> (\<exists>new. history_jsonl wn = history_jsonl empty_world @ new
               \<and> (\<forall>r\<in>set new. up_means_zero r))
        \<and> (\<forall>h r. map_of (snapshot_by_host wn) h = Some r \<longrightarrow> up_means_zero r)
        \<and> status_json wn = Doc (JObj (snapshot_by_host wn))
        \<and> state_json wn = Doc (JObj (state wn)))"
proof -
  let ?pv = "\<lparr>prev_status = DEGRADED, prev_failures = 7, prev_last_alert_ts = Finite 0,
            prev_last_seen = JNull\<rparr>"
  let ?cs = "[(''t1'', \<lambda>i::nat. reachable 20 1000), (''t2'', \<lambda>i. unreachable 1003)]"
  have seen: "read_prev example_lib (state (seen_world DEGRADED 7)) (host example_target)
      = Inr ?pv"
    by (rule read_prev_seen_world)
  have quiet: "returns_or_fails (urlopen_raises (reachable 20 1000))"
    by (simp add: reachable_def returns_or_fails_def)
  from example_run_returns obtain wn where
      run: "run_cycles example_lib example_cfg ?cs empty_world = Inr wn" ..
  have ne: "?cs \<noteq> []" by simp
  note step = up_status_has_zero_failures [where L = example_lib and cfg = example_cfg
      and w = "seen_world DEGRADED 7" and t = example_target and pv = ?pv
      and s = "reachable 20 1000" and now_iso = "''t1''", THEN conjunct1, rule_format,
      OF conjI, OF seen quiet]
  note loop = up_status_has_zero_failures [where L = example_lib and cfg = example_cfg
      and w = empty_world and cs = ?cs and wn = wn, THEN conjunct2, rule_format, OF run]
  from loop ne have "(\<exists>new. history_jsonl wn = history_jsonl empty_world @ new
               \<and> (\<forall>r\<in>set new. up_means_zero r))
        \<and> (\<forall>h r. map_of (snapshot_by_host wn) h = Some r \<longrightarrow> up_means_zero r)
        \<and> status_json wn = Doc (JObj (snapshot_by_host wn))
        \<and> state_json wn = Doc (JObj (state wn))"
    by simp
  with run have "\<exists>wn. run_cycles example_lib example_cfg ?cs empty_world = Inr wn
        \<and> (\<exists>new. history_jsonl wn = history_jsonl empty_world @ new
               \<and> (\<forall>r\<in>set new. up_means_zero r))
        \<and> (\<forall>h r. map_of (snapshot_by_host wn) h = Some r \<longrightarrow> up_means_zero r)
        \<and> status_json wn = Doc (JObj (snapshot_by_host wn))
        \<and> state_json wn = Doc (JObj (state wn))"
    by (intro exI [of _ wn] conjI) simp_all
  with seen quiet step show ?thesis
    by (intro conjI)
qed

section \<open>Alerts and the cooldown\<close>

text \<open>
  C2 as stated does not hold, in two ways. With the notifier disabled, an iteration in which
  the status changes from UP to DOWN and the cooldown has long passed appends the alert event
  but calls Telegram not at all, and the stored last alert time stays 0 instead of becoming
  now. With the notifier enabled and no last alert time stored, the same change at clock value
  30 (cooldown 60) appends the alert event and calls Telegram not at all: the missing time is
  read as 0 and does not pass the cooldown.
\<close>

theorem alert_due_iff_cooldown_counterexample:
  "read_prev example_lib (state (seen_world UP 0)) (host example_target)
     = Inr \<lparr>prev_status = UP, prev_failures = 0, prev_last_alert_ts = Finite 0,
            prev_last_seen = JNull\<rparr>
   \<and> status_change DOWN UP
   \<and> float_ge_int (float_minus example_lib (Finite 1000) (Finite 0)) (cfg_tg_cooldown silent_cfg)
   \<and> process_target example_lib silent_cfg ''t1'' example_target (unreachable 1000)
         (seen_world UP 0) = Inr after_silent_alert
   \<and> entry_field (state after_silent_alert) (host example_target) ''status'' = JStr DOWN
   \<and> telegram_calls after_silent_alert = telegram_calls (seen_world UP 0)
   \<and> entry_field (state after_silent_alert) (host example_target) ''last_alert_ts''
       = JFloat (Finite 0)
   \<and> Finite 0 \<noteq> Finite (time_now (unreachable 1000))
   \<and> map_of (state never_alerted_world) (host example_target)
       = Some (JObj [(''status'', JStr ''UP'')])
   \<and> map_of [(''status'', JStr ''UP'')] ''last_alert_ts'' = None
   \<and> cfg_tg_enabled alert_cfg \<and> cfg_tg_token alert_cfg \<noteq> [] \<and> cfg_tg_chat alert_cfg \<noteq> []
   \<and> cfg_tg_cooldown alert_cfg = 60
   \<and> map_sum id alerts_jsonl
         (process_target example_lib alert_cfg ''t1'' example_target (unreachable 30)
            never_alerted_world)
       = Inr [alert_obj ''t1'' example_target UP DOWN]
   \<and> map_sum id telegram_calls
         (process_target example_lib alert_cfg ''t1'' example_target (unreachable 30)
            never_alerted_world)
       = Inr []"
proof -
  have rp: "read_prev example_lib (state (seen_world UP 0)) (host example_target)
     = Inr \<lparr>prev_status = UP, prev_failures = 0, prev_last_alert_ts = Finite 0,
            prev_last_seen = JNull\<rparr>"
    by (rule read_prev_seen_world)
  have q: "returns_or_fails (urlopen_raises (unreachable 1000))"
    by (simp add: unreachable_def returns_or_fails_def)
  have step: "process_target example_lib silent_cfg ''t1'' example_target (unreachable 1000)
         (seen_world UP 0) = Inr after_silent_alert"
    unfolding process_target_result [OF rp q]
    by (simp add: silent_cfg_def example_cfg_def seen_world_def empty_world_def unreachable_def
       example_target_def after_silent_alert_def status_change_def notify_due_def
       effective_status_def update_failures_def item_of_def state_entry_def alert_obj_def
       dict_get_def UP_def DOWN_def DEGRADED_def UNKNOWN_def)
  have obs: "status_change DOWN UP"
    "float_ge_int (float_minus example_lib (Finite 1000) (Finite 0)) (cfg_tg_cooldown silent_cfg)"
    "entry_field (state after_silent_alert) (host example_target) ''status'' = JStr DOWN"
    "telegram_calls after_silent_alert = telegram_calls (seen_world UP 0)"
    "entry_field (state after_silent_alert) (host example_target) ''last_alert_ts''
       = JFloat (Finite 0)"
    "Finite 0 \<noteq> Finite (time_now (unreachable 1000))"
    by (simp_all add: silent_cfg_def example_cfg_def seen_world_def empty_world_def
       unreachable_def example_target_def after_silent_alert_def status_change_def
       entry_field_def dict_get_def example_lib_def UP_def DOWN_def UNKNOWN_def)
  have never: "map_of (state never_alerted_world) (host example_target)
       = Some (JObj [(''status'', JStr ''UP'')])"
    "map_of [(''status'', JStr ''UP'')] ''last_alert_ts'' = None"
    by (simp_all add: never_alerted_world_def empty_world_def)
  have cfg: "cfg_tg_enabled alert_cfg" "cfg_tg_token alert_cfg \<noteq> []"
    "cfg_tg_chat alert_cfg \<noteq> []" "cfg_tg_cooldown alert_cfg = 60"
    by (simp_all add: alert_cfg_def example_cfg_def)
  have rp': "read_prev example_lib (state never_alerted_world) (host example_target)
     = Inr \<lparr>prev_status = ''UP'', prev_failures = 0, prev_last_alert_ts = Finite 0,
            prev_last_seen = JNull\<rparr>"
    by (simp add: never_alerted_world_def empty_world_def read_prev_def dict_get_def py_or_def)
  have q': "returns_or_fails (urlopen_raises (unreachable 30))"
    by (simp add: unreachable_def returns_or_fails_def)
  have early: "map_sum id alerts_jsonl
         (process_target example_lib alert_cfg ''t1'' example_target (unreachable 30)
            never_alerted_world)
       = Inr [alert_obj ''t1'' example_target UP DOWN]"
    "map_sum id telegram_calls
         (process_target example_lib alert_cfg ''t1'' example_target (unreachable 30)
            never_alerted_world)
       = Inr []"
    unfolding process_target_result [OF rp' q']
    by (simp_all add: alert_cfg_def example_cfg_def never_alerted_world_def empty_world_def
       unreachable_def status_change_def notify_due_def example_lib_def
       effective_status_def update_failures_def UP_def DOWN_def DEGRADED_def UNKNOWN_def)
  from rp step obs never cfg early show ?thesis
    by (intro conjI)
qed

lemma process_target_step:
  fixes L cfg now_iso t s w pv
  defines "eff \<equiv>
     effective_status (classify_status (ping_ok s) (ping_latency s) (cfg_degraded_ms cfg))
       (update_failures (ping_ok s) (prev_failures pv)) (cfg_fail_threshold cfg)"
  defines "due \<equiv> status_change eff (prev_status pv)
     \<and> notify_due L cfg (time_now s) (prev_last_alert_ts pv)"
  assumes "read_prev L (state w) (host t) = Inr pv" "returns_or_fails (urlopen_raises s)"
  shows "\<exists>w' pv'. process_target L cfg now_iso t s w = Inr w'
     \<and> read_prev L (state w') (host t) = Inr pv'
     \<and> prev_status pv' = eff
     \<and> prev_failures pv' = update_failures (ping_ok s) (prev_failures pv)
     \<and> prev_last_alert_ts pv' = (if due then Finite (time_now s) else prev_last_alert_ts pv)
     \<and> entry_field (state w') (host t) ''last_alert_ts''
         = JFloat (if due then Finite (time_now s) else prev_last_alert_ts pv)
     \<and> telegram_calls w'
         = telegram_calls w @ (if due then [alert_msg t (prev_status pv) eff] else [])
     \<and> alerts_jsonl w'
         = alerts_jsonl w
           @ (if status_change eff (prev_status pv)
              then [alert_obj now_iso t (prev_status pv) eff] else [])"
  using assms(3,4) unfolding eff_def due_def
  by (simp add: process_target_result read_prev_back entry_field_update entry_fields
        del: classify_status.simps)

lemma cooldown_scenario:
  fixes L cfg t pv sa sb sc
  defines "fa \<equiv> update_failures (ping_ok sa) (prev_failures pv)"
  defines "ea \<equiv>
     effective_status (classify_status (ping_ok sa) (ping_latency sa) (cfg_degraded_ms cfg))
       fa (cfg_fail_threshold cfg)"
  defines "fb \<equiv> update_failures (ping_ok sb) fa"
  defines "eb \<equiv>
     effective_status (classify_status (ping_ok sb) (ping_latency sb) (cfg_degraded_ms cfg))
       fb (cfg_fail_threshold cfg)"
  defines "fc \<equiv> update_failures (ping_ok sc) fb"
  defines "ec \<equiv>
     effective_status (classify_status (ping_ok sc) (ping_latency sc) (cfg_degraded_ms cfg))
       fc (cfg_fail_threshold cfg)"
  assumes pv: "read_prev L (state w) (host t) = Inr pv"
    and tr: "status_change ea (prev_status pv)" "status_change eb ea" "status_change ec eb"
    and la: "prev_last_alert_ts pv = Finite a" "a + 60 \<le> T"
    and ex: "float_minus L (Finite T) (Finite a) = Finite (T - a)"
      "float_minus L (Finite (T + 30)) (Finite T) = Finite 30"
      "float_minus L (Finite (T + 61)) (Finite T) = Finite 61"
    and cfg: "cfg_tg_enabled cfg" "cfg_tg_token cfg \<noteq> []" "cfg_tg_chat cfg \<noteq> []"
      "cfg_tg_cooldown cfg = 60"
    and sa: "time_now sa = T" "returns_or_fails (urlopen_raises sa)"
    and sb: "time_now sb = T + 30" "returns_or_fails (urlopen_raises sb)"
    and sc: "time_now sc = T + 61" "returns_or_fails (urlopen_raises sc)"
  shows "\<exists>wa wb wc.
       process_target L cfg na t sa w = Inr wa
     \<and> process_target L cfg nb t sb wa = Inr wb
     \<and> process_target L cfg nc t sc wb = Inr wc
     \<and> alerts_jsonl wa = alerts_jsonl w @ [alert_obj na t (prev_status pv) ea]
     \<and> alerts_jsonl wb
         = alerts_jsonl w @ [alert_obj na t (prev_status pv) ea, alert_obj nb t ea eb]
     \<and> alerts_jsonl wc
         = alerts_jsonl w
           @ [alert_obj na t (prev_status pv) ea, alert_obj nb t ea eb, alert_obj nc t eb ec]
     \<and> telegram_calls wa = telegram_calls w @ [alert_msg t (prev_status pv) ea]
     \<and> telegram_calls wb = telegram_calls w @ [alert_msg t (prev_status pv) ea]
     \<and> telegram_calls wc
         = telegram_calls w @ [alert_msg t (prev_status pv) ea, alert_msg t eb ec]"
proof -
  have due_a: "status_change ea (prev_status pv)
      \<and> notify_due L cfg (time_now sa) (prev_last_alert_ts pv)"
    using tr(1) la ex(1) cfg sa(1) by (simp add: notify_due_def)
  from process_target_step [OF pv sa(2), of cfg na] due_a
  obtain wa pa where a: "process_target L cfg na t sa w = Inr wa"
      "read_prev L (state wa) (host t) = Inr pa" "prev_status pa = ea" "prev_failures pa = fa"
      "prev_last_alert_ts pa = Finite T"
      "telegram_calls wa = telegram_calls w @ [alert_msg t (prev_status pv) ea]"
      "alerts_jsonl wa = alerts_jsonl w @ [alert_obj na t (prev_status pv) ea]"
    unfolding ea_def fa_def using sa(1) by (auto simp del: classify_status.simps)
  have chg_b: "status_change eb (prev_status pa)"
    using tr(2) a(3) by simp
  have nodue_b: "\<not> notify_due L cfg (time_now sb) (prev_last_alert_ts pa)"
    using a(5) sb(1) cfg(4) ex(2) by (simp add: notify_due_def)
  from process_target_step [OF a(2) sb(2), of cfg nb] chg_b nodue_b
  obtain wb pb where b: "process_target L cfg nb t sb wa = Inr wb"
      "read_prev L (state wb) (host t) = Inr pb" "prev_status pb = eb" "prev_failures pb = fb"
      "prev_last_alert_ts pb = Finite T"
      "telegram_calls wb = telegram_calls wa"
      "alerts_jsonl wb = alerts_jsonl wa @ [alert_obj nb t ea eb]"
    unfolding eb_def fb_def using a(3,4,5) by (auto simp del: classify_status.simps)
  have due_c: "status_change ec (prev_status pb)
      \<and> notify_due L cfg (time_now sc) (prev_last_alert_ts pb)"
    using tr(3) b(3,5) cfg sc(1) ex(3) by (simp add: notify_due_def)
  from process_target_step [OF b(2) sc(2), of cfg nc] due_c
  obtain wc where c: "process_target L cfg nc t sc wb = Inr wc"
      "telegram_calls wc = telegram_calls wb @ [alert_msg t eb ec]"
      "alerts_jsonl wc = alerts_jsonl wb @ [alert_obj nc t eb ec]"
    unfolding ec_def fc_def using b(3,4) by (auto simp del: classify_status.simps)
  show ?thesis
  proof (intro exI conjI)
    show "process_target L cfg na t sa w = Inr wa" by (rule a(1))
    show "process_target L cfg nb t sb wa = Inr wb" by (rule b(1))
    show "process_target L cfg nc t sc wb = Inr wc" by (rule c(1))
    show "alerts_jsonl wa = alerts_jsonl w @ [alert_obj na t (prev_status pv) ea]"
      by (rule a(7))
    show "alerts_jsonl wb
        = alerts_jsonl w @ [alert_obj na t (prev_status pv) ea, alert_obj nb t ea eb]"
      using a(7) b(7) by simp
    show "alerts_jsonl wc
        = alerts_jsonl w
          @ [alert_obj na t (prev_status pv) ea, alert_obj nb t ea eb, alert_obj nc t eb ec]"
      using a(7) b(7) c(3) by simp
    show "telegram_calls wa = telegram_calls w @ [alert_msg t (prev_status pv) ea]"
      by (rule a(6))
    show "telegram_calls wb = telegram_calls w @ [alert_msg t (prev_status pv) ea]"
      using a(6) b(6) by simp
    show "telegram_calls wc
        = telegram_calls w @ [alert_msg t (prev_status pv) ea, alert_msg t eb ec]"
      using a(6) b(6) c(2) by simp
  qed
qed

lemma read_prev_no_alert_ts:
  assumes "map_of st h = Some (JObj prev)" "map_of prev ''last_alert_ts'' = None"
    "read_prev L st h = Inr pa"
  shows "prev_last_alert_ts pa = Finite 0"
  using assms
  by (auto simp: read_prev_def dict_get_def py_or_def Let_def split: sum.splits)

text \<open>
  C2, as amended: Telegram is called in an iteration exactly when the effective status
  changed from a previous status other than UNKNOWN, the notifier is enabled with a non-empty
  token and chat id, and the difference the runtime computes between now and the last alert
  time read from the state is at least the cooldown; the stored last alert time becomes now in
  that case and otherwise stays the time that was read. A missing last alert time is read as
  0. Where the runtime's difference is the exact one, the test is that now is at least the
  last alert time plus the cooldown, so a gap of exactly the cooldown passes. With the notifier
  enabled and a cooldown of 60, three iterations at T, T + 30 and T + 61 that each change the
  status (the last alert at least 60 before T, the three differences exact) give three alert
  events and two calls: for the first and for the third.
\<close>

theorem dispatch_iff_enabled_change_cooldown:
  fixes L cfg t pv s w now_iso sa sb sc
  defines "eff \<equiv>
     effective_status (classify_status (ping_ok s) (ping_latency s) (cfg_degraded_ms cfg))
       (update_failures (ping_ok s) (prev_failures pv)) (cfg_fail_threshold cfg)"
  defines "due \<equiv> eff \<noteq> prev_status pv \<and> prev_status pv \<noteq> UNKNOWN
     \<and> cfg_tg_enabled cfg \<and> cfg_tg_token cfg \<noteq> [] \<and> cfg_tg_chat cfg \<noteq> []
     \<and> float_ge_int (float_minus L (Finite (time_now s)) (prev_last_alert_ts pv))
           (cfg_tg_cooldown cfg)"
  defines "fa \<equiv> update_failures (ping_ok sa) (prev_failures pv)"
  defines "ea \<equiv>
     effective_status (classify_status (ping_ok sa) (ping_latency sa) (cfg_degraded_ms cfg))
       fa (cfg_fail_threshold cfg)"
  defines "fb \<equiv> update_failures (ping_ok sb) fa"
  defines "eb \<equiv>
     effective_status (classify_status (ping_ok sb) (ping_latency sb) (cfg_degraded_ms cfg))
       fb (cfg_fail_threshold cfg)"
  defines "fc \<equiv> update_failures (ping_ok sc) fb"
  defines "ec \<equiv>
     effective_status (classify_status (ping_ok sc) (ping_latency sc) (cfg_degraded_ms cfg))
       fc (cfg_fail_threshold cfg)"
  shows
  "(read_prev L (state w) (host t) = Inr pv \<and> returns_or_fails (urlopen_raises s) \<longrightarrow>
     (\<exists>w'. process_target L cfg now_iso t s w = Inr w'
        \<and> telegram_calls w'
            = telegram_calls w @ (if due then [alert_msg t (prev_status pv) eff] else [])
        \<and> entry_field (state w') (host t) ''last_alert_ts''
            = JFloat (if due then Finite (time_now s) else prev_last_alert_ts pv)))
   \<and> (map_of st h = Some (JObj prev) \<and> map_of prev ''last_alert_ts'' = None
        \<and> read_prev L st h = Inr pa \<longrightarrow> prev_last_alert_ts pa = Finite 0)
   \<and> (float_minus L (Finite now) (Finite a) = Finite (now - a) \<longrightarrow>
        float_ge_int (float_minus L (Finite now) (Finite a)) c = (a + real_of_int c \<le> now))
   \<and> (float_minus L (Finite (a + real_of_int c)) (Finite a) = Finite (real_of_int c) \<longrightarrow>
        float_ge_int (float_minus L (Finite (a + real_of_int c)) (Finite a)) c)
   \<and> (read_prev L (state w) (host t) = Inr pv
        \<and> status_change ea (prev_status pv) \<and> status_change eb ea \<and> status_change ec eb
        \<and> prev_last_alert_ts pv = Finite b \<and> b + 60 \<le> T
        \<and> float_minus L (Finite T) (Finite b) = Finite (T - b)
        \<and> float_minus L (Finite (T + 30)) (Finite T) = Finite 30
        \<and> float_minus L (Finite (T + 61)) (Finite T) = Finite 61
        \<and> cfg_tg_enabled cfg \<and> cfg_tg_token cfg \<noteq> [] \<and> cfg_tg_chat cfg \<noteq> []
        \<and> cfg_tg_cooldown cfg = 60
        \<and> time_now sa = T \<and> returns_or_fails (urlopen_raises sa)
        \<and> time_now sb = T + 30 \<and> returns_or_fails (urlopen_raises sb)
        \<and> time_now sc = T + 61 \<and> returns_or_fails (urlopen_raises sc)
       \<longrightarrow>
       (\<exists>wa wb wc.
           process_target L cfg na t sa w = Inr wa
         \<and> process_target L cfg nb t sb wa = Inr wb
         \<and> process_target L cfg nc t sc wb = Inr wc
         \<and> alerts_jsonl wa = alerts_jsonl w @ [alert_obj na t (prev_status pv) ea]
         \<and> alerts_jsonl wb
             = alerts_jsonl w @ [alert_obj na t (prev_status pv) ea, alert_obj nb t ea eb]
         \<and> alerts_jsonl wc
             = alerts_jsonl w
               @ [alert_obj na t (prev_status pv) ea, alert_obj nb t ea eb,
                  alert_obj nc t eb ec]
         \<and> telegram_calls wa = telegram_calls w @ [alert_msg t (prev_status pv) ea]
         \<and> telegram_calls wb = telegram_calls w @ [alert_msg t (prev_status pv) ea]
         \<and> telegram_calls wc
             = telegram_calls w @ [alert_msg t (prev_status pv) ea, alert_msg t eb ec]))"
proof (intro conjI impI)
  assume a: "read_prev L (state w) (host t) = Inr pv \<and> returns_or_fails (urlopen_raises s)"
  have d: "due \<longleftrightarrow> status_change eff (prev_status pv)
      \<and> notify_due L cfg (time_now s) (prev_last_alert_ts pv)"
    unfolding due_def by (simp add: status_change_def notify_due_def)
  from a show "\<exists>w'. process_target L cfg now_iso t s w = Inr w'
        \<and> telegram_calls w'
            = telegram_calls w @ (if due then [alert_msg t (prev_status pv) eff] else [])
        \<and> entry_field (state w') (host t) ''last_alert_ts''
            = JFloat (if due then Finite (time_now s) else prev_last_alert_ts pv)"
    unfolding d unfolding eff_def
    by (simp add: process_target_result entry_field_update entry_fields
          del: classify_status.simps)
next
  assume "map_of st h = Some (JObj prev) \<and> map_of prev ''last_alert_ts'' = None
        \<and> read_prev L st h = Inr pa"
  then show "prev_last_alert_ts pa = Finite 0"
    using read_prev_no_alert_ts by blast
next
  assume "float_minus L (Finite now) (Finite a) = Finite (now - a)"
  then show "float_ge_int (float_minus L (Finite now) (Finite a)) c = (a + real_of_int c \<le> now)"
    by auto
next
  assume "float_minus L (Finite (a + real_of_int c)) (Finite a) = Finite (real_of_int c)"
  then show "float_ge_int (float_minus L (Finite (a + real_of_int c)) (Finite a)) c"
    by simp
next
  assume "read_prev L (state w) (host t) = Inr pv
        \<and> status_change ea (prev_status pv) \<and> status_change eb ea \<and> status_change ec eb
        \<and> prev_last_alert_ts pv = Finite b \<and> b + 60 \<le> T
        \<and> float_minus L (Finite T) (Finite b) = Finite (T - b)
        \<and> float_minus L (Finite (T + 30)) (Finite T) = Finite 30
        \<and> float_minus L (Finite (T + 61)) (Finite T) = Finite 61
        \<and> cfg_tg_enabled cfg \<and> cfg_tg_token cfg \<noteq> [] \<and> cfg_tg_chat cfg \<noteq> []
        \<and> cfg_tg_cooldown cfg = 60
        \<and> time_now sa = T \<and> returns_or_fails (urlopen_raises sa)
        \<and> time_now sb = T + 30 \<and> returns_or_fails (urlopen_raises sb)
        \<and> time_now sc = T + 61 \<and> returns_or_fails (urlopen_raises sc)"
  then show "\<exists>wa wb wc.
           process_target L cfg na t sa w = Inr wa
         \<and> process_target L cfg nb t sb wa = Inr wb
         \<and> process_target L cfg nc t sc wb = Inr wc
         \<and> alerts_jsonl wa = alerts_jsonl w @ [alert_obj na t (prev_status pv) ea]
         \<and> alerts_jsonl wb
             = alerts_jsonl w @ [alert_obj na t (prev_status pv) ea, alert_obj nb t ea eb]
         \<and> alerts_jsonl wc
             = alerts_jsonl w
               @ [alert_obj na t (prev_status pv) ea, alert_obj nb t ea eb,
                  alert_obj nc t eb ec]
         \<and> telegram_calls wa = telegram_calls w @ [alert_msg t (prev_status pv) ea]
         \<and> telegram_calls wb = telegram_calls w @ [alert_msg t (prev_status pv) ea]
         \<and> telegram_calls wc
             = telegram_calls w @ [alert_msg t (prev_status pv) ea, alert_msg t eb ec]"
    unfolding fa_def ea_def fb_def eb_def fc_def ec_def
    by (intro cooldown_scenario [where pv = pv and a = b and T = T]) simp_all
qed

theorem dispatch_iff_enabled_change_cooldown_witness:
  "read_prev example_lib (state (seen_world UP 0)) (host example_target)
     = Inr \<lparr>prev_status = UP, prev_failures = 0, prev_last_alert_ts = Finite 0,
            prev_last_seen = JNull\<rparr>
   \<and> status_change DOWN UP \<and> status_change UP DOWN \<and> (0::real) + 60 \<le> 1700000000
   \<and> float_minus example_lib (Finite 1700000000) (Finite 0) = Finite (1700000000 - 0)
   \<and> float_minus example_lib (Finite (1700000000 + 30)) (Finite 1700000000) = Finite 30
   \<and> float_minus example_lib (Finite (1700000000 + 61)) (Finite 1700000000) = Finite 61
   \<and> float_minus example_lib (Finite (1700000000 + real_of_int 60)) (Finite 1700000000)
       = Finite (real_of_int 60)
   \<and> float_ge_int (float_minus example_lib (Finite (1700000000 + real_of_int 60))
         (Finite 1700000000)) 60
   \<and> cfg_tg_enabled alert_cfg \<and> cfg_tg_token alert_cfg \<noteq> [] \<and> cfg_tg_chat alert_cfg \<noteq> []
   \<and> cfg_tg_cooldown alert_cfg = 60
   \<and> returns_or_fails (urlopen_raises (unreachable 1700000000))
   \<and> returns_or_fails (urlopen_raises (reachable 20 1700000030))
   \<and> returns_or_fails (urlopen_raises (unreachable 1700000061))
   \<and> map_of [(''192.168.1.1'', JObj [(''status'', JStr ''UP'')])] ''192.168.1.1''
       = Some (JObj [(''status'', JStr ''UP'')])
   \<and> map_of [(''status'', JStr ''UP'')] ''last_alert_ts'' = None
   \<and> read_prev example_lib [(''192.168.1.1'', JObj [(''status'', JStr ''UP'')])] ''192.168.1.1''
       = Inr \<lparr>prev_status = ''UP'', prev_failures = 0, prev_last_alert_ts = Finite 0,
              prev_last_seen = JNull\<rparr>
   \<and> (\<exists>w'. process_target example_lib alert_cfg ''t1'' example_target
               (unreachable 1700000000) (seen_world UP 0) = Inr w'
          \<and> telegram_calls w' = [alert_msg example_target UP DOWN]
          \<and> entry_field (state w') (host example_target) ''last_alert_ts''
              = JFloat (Finite 1700000000))
   \<and> (\<exists>wa wb wc.
           process_target example_lib alert_cfg ''t1'' example_target
             (unreachable 1700000000) (seen_world UP 0) = Inr wa
         \<and> process_target example_lib alert_cfg ''t2'' example_target
             (reachable 20 1700000030) wa = Inr wb
         \<and> process_target example_lib alert_cfg ''t3'' example_target
             (unreachable 1700000061) wb = Inr wc
         \<and> alerts_jsonl wc
             = [alert_obj ''t1'' example_target UP DOWN, alert_obj ''t2'' example_target DOWN UP,
                alert_obj ''t3'' example_target UP DOWN]
         \<and> telegram_calls wa = [alert_msg example_target UP DOWN]
         \<and> telegram_calls wb = [alert_msg example_target UP DOWN]
         \<and> telegram_calls wc
             = [alert_msg example_target UP DOWN, alert_msg example_target UP DOWN])"
proof -
  let ?pv = "\<lparr>prev_status = UP, prev_failures = 0, prev_last_alert_ts = Finite 0,
            prev_last_seen = JNull\<rparr>"
  let ?st = "[(''192.168.1.1'', JObj [(''status'', JStr ''UP'')])]"
  have seen: "read_prev example_lib (state (seen_world UP 0)) (host example_target) = Inr ?pv"
    by (rule read_prev_seen_world)
  have st: "status_change DOWN UP" "status_change UP DOWN"
    by (simp_all add: status_change_def UP_def DOWN_def UNKNOWN_def)
  have ex: "float_minus example_lib (Finite 1700000000) (Finite 0) = Finite (1700000000 - 0)"
      "float_minus example_lib (Finite (1700000000 + 30)) (Finite 1700000000) = Finite 30"
      "float_minus example_lib (Finite (1700000000 + 61)) (Finite 1700000000) = Finite 61"
      "float_minus example_lib (Finite (1700000000 + real_of_int 60)) (Finite 1700000000)
       = Finite (real_of_int 60)"
    by (simp_all add: example_lib_def)
  have cfg: "cfg_tg_enabled alert_cfg" "cfg_tg_token alert_cfg \<noteq> []"
      "cfg_tg_chat alert_cfg \<noteq> []" "cfg_tg_cooldown alert_cfg = 60"
      "cfg_fail_threshold alert_cfg = 1" "cfg_degraded_ms alert_cfg = 120"
    by (simp_all add: alert_cfg_def example_cfg_def)
  have q: "returns_or_fails (urlopen_raises (unreachable 1700000000))"
      "returns_or_fails (urlopen_raises (reachable 20 1700000030))"
      "returns_or_fails (urlopen_raises (unreachable 1700000061))"
    by (simp_all add: unreachable_def reachable_def returns_or_fails_def)
  have p: "time_now (unreachable 1700000000) = 1700000000"
      "time_now (reachable 20 1700000030) = 1700000000 + 30"
      "time_now (unreachable 1700000061) = 1700000000 + 61"
    by (simp_all add: unreachable_def reachable_def)
  have m: "map_of ?st ''192.168.1.1'' = Some (JObj [(''status'', JStr ''UP'')])"
      "map_of [(''status'', JStr ''UP'')] ''last_alert_ts'' = None"
    by simp_all
  have r: "read_prev example_lib ?st ''192.168.1.1''
       = Inr \<lparr>prev_status = ''UP'', prev_failures = 0, prev_last_alert_ts = Finite 0,
              prev_last_seen = JNull\<rparr>"
    by (simp add: read_prev_def dict_get_def py_or_def)
  note inst = dispatch_iff_enabled_change_cooldown [where L = example_lib and cfg = alert_cfg
      and w = "seen_world UP 0" and t = example_target and pv = ?pv
      and s = "unreachable 1700000000" and now_iso = "''t1''"
      and sa = "unreachable 1700000000" and sb = "reachable 20 1700000030"
      and sc = "unreachable 1700000061" and b = 0 and T = 1700000000
      and na = "''t1''" and nb = "''t2''" and nc = "''t3''"
      and st = ?st and h = "''192.168.1.1''" and prev = "[(''status'', JStr ''UP'')]"
      and pa = "\<lparr>prev_status = ''UP'', prev_failures = 0, prev_last_alert_ts = Finite 0,
              prev_last_seen = JNull\<rparr>"
      and a = 1700000000 and c = 60]
  have fa: "update_failures (ping_ok (unreachable 1700000000)) (prev_failures ?pv) = 1"
    by (simp add: unreachable_def update_failures_def)
  have ea: "effective_status
       (classify_status (ping_ok (unreachable 1700000000))
          (ping_latency (unreachable 1700000000)) (cfg_degraded_ms alert_cfg))
       1 (cfg_fail_threshold alert_cfg) = DOWN"
    by (simp add: unreachable_def cfg effective_status_def)
  have fb: "update_failures (ping_ok (reachable 20 1700000030)) 1 = 0"
    by (simp add: reachable_def update_failures_def)
  have eb: "effective_status
       (classify_status (ping_ok (reachable 20 1700000030))
          (ping_latency (reachable 20 1700000030)) (cfg_degraded_ms alert_cfg))
       0 (cfg_fail_threshold alert_cfg) = UP"
    by (simp add: reachable_def cfg effective_status_def UP_def DOWN_def)
  have fc: "update_failures (ping_ok (unreachable 1700000061)) 0 = 1"
    by (simp add: unreachable_def update_failures_def)
  have ec: "effective_status
       (classify_status (ping_ok (unreachable 1700000061))
          (ping_latency (unreachable 1700000061)) (cfg_degraded_ms alert_cfg))
       1 (cfg_fail_threshold alert_cfg) = DOWN"
    by (simp add: unreachable_def cfg effective_status_def)
  from inst [THEN conjunct1] seen q(1)
  have one: "\<exists>w'. process_target example_lib alert_cfg ''t1'' example_target
               (unreachable 1700000000) (seen_world UP 0) = Inr w'
          \<and> telegram_calls w' = [alert_msg example_target UP DOWN]
          \<and> entry_field (state w') (host example_target) ''last_alert_ts''
              = JFloat (Finite 1700000000)"
    unfolding fa ea using cfg p(1) ex(1)
    by (simp add: seen_world_def empty_world_def DOWN_def UP_def UNKNOWN_def)
  from inst [THEN conjunct2, THEN conjunct2, THEN conjunct2, THEN conjunct1] ex(4)
  have edge: "float_ge_int (float_minus example_lib (Finite (1700000000 + real_of_int 60))
         (Finite 1700000000)) 60"
    by blast
  from inst [THEN conjunct2, THEN conjunct2, THEN conjunct2, THEN conjunct2]
  have three: "\<exists>wa wb wc.
           process_target example_lib alert_cfg ''t1'' example_target
             (unreachable 1700000000) (seen_world UP 0) = Inr wa
         \<and> process_target example_lib alert_cfg ''t2'' example_target
             (reachable 20 1700000030) wa = Inr wb
         \<and> process_target example_lib alert_cfg ''t3'' example_target
             (unreachable 1700000061) wb = Inr wc
         \<and> alerts_jsonl wc
             = [alert_obj ''t1'' example_target UP DOWN, alert_obj ''t2'' example_target DOWN UP,
                alert_obj ''t3'' example_target UP DOWN]
         \<and> telegram_calls wa = [alert_msg example_target UP DOWN]
         \<and> telegram_calls wb = [alert_msg example_target UP DOWN]
         \<and> telegram_calls wc
             = [alert_msg example_target UP DOWN, alert_msg example_target UP DOWN]"
    unfolding fa ea fb eb fc ec using seen st cfg(1-4) q p ex(1-3)
    by (simp add: seen_world_def empty_world_def) blast
  from seen st ex edge cfg(1-4) q m r one three show ?thesis
    by (intro conjI) simp_all
qed

section \<open>Configuration values\<close>

lemma default_int_values:
  "default_int ''interval_seconds'' = 3" "default_int ''timeout_ms'' = 1200"
  "default_int ''degraded_ms'' = 120" "default_int ''fail_threshold'' = 2"
  by (simp_all add: default_int_def DEFAULT_CONFIG_def dict_get_def)

lemma clamp_int_bounds:
  "lo \<le> hi \<Longrightarrow> lo \<le> d \<Longrightarrow> d \<le> hi \<Longrightarrow>
   lo \<le> clamp_int L x lo hi d \<and> clamp_int L x lo hi d \<le> hi"
  by (auto simp: clamp_int_def split: sum.splits)

lemma load_config_Missing: "load_config L Missing = default_values"
  by (simp add: load_config_def default_int_values clamp_int_def)
     (simp add: DEFAULT_CONFIG_def DEFAULT_TELEGRAM_def dict_get_def normalize_targets_def
        strip_def isspace_def default_values_def default_targets_def)

lemma load_config_Corrupt: "load_config L Corrupt = load_config L Missing"
  by (simp add: load_config_def)

lemma load_config_non_object:
  "(\<forall>d. j \<noteq> JObj d) \<Longrightarrow> load_config L (Doc j) = load_config L Missing"
  by (cases j) (simp_all add: load_config_def)

lemma load_config_bounds:
  "1 \<le> cfg_interval (load_config L cf) \<and> cfg_interval (load_config L cf) \<le> 3600
   \<and> 200 \<le> cfg_timeout_ms (load_config L cf) \<and> cfg_timeout_ms (load_config L cf) \<le> 10000
   \<and> 1 \<le> cfg_degraded_ms (load_config L cf) \<and> cfg_degraded_ms (load_config L cf) \<le> 20000
   \<and> 1 \<le> cfg_fail_threshold (load_config L cf) \<and> cfg_fail_threshold (load_config L cf) \<le> 20
   \<and> 5 \<le> cfg_tg_cooldown (load_config L cf) \<and> cfg_tg_cooldown (load_config L cf) \<le> 3600"
  by (simp add: load_config_def Let_def default_int_values clamp_int_bounds)

lemma load_config_object:
  "cfg_interval (load_config L (Doc (JObj c)))
     = clamp_int L (dict_get c ''interval_seconds'' JNull) 1 3600 3"
  "cfg_timeout_ms (load_config L (Doc (JObj c)))
     = clamp_int L (dict_get c ''timeout_ms'' JNull) 200 10000 1200"
  "cfg_degraded_ms (load_config L (Doc (JObj c)))
     = clamp_int L (dict_get c ''degraded_ms'' JNull) 1 20000 120"
  "cfg_fail_threshold (load_config L (Doc (JObj c)))
     = clamp_int L (dict_get c ''fail_threshold'' JNull) 1 20 2"
  by (simp_all add: load_config_def Let_def default_int_values)

lemma load_config_cooldown:
  "map_of c ''telegram'' = Some (JObj tg) \<Longrightarrow>
   cfg_tg_cooldown (load_config L (Doc (JObj c)))
     = clamp_int L (dict_get tg ''cooldown_seconds'' JNull) 5 3600 60"
  by (simp add: load_config_def Let_def dict_get_def)

lemma load_config_no_telegram:
  assumes "\<forall>tg. map_of c ''telegram'' \<noteq> Some (JObj tg)"
  shows "cfg_tg_cooldown (load_config L (Doc (JObj c))) = 60"
proof (cases "map_of c ''telegram''")
  case None
  then show ?thesis
    by (simp add: load_config_def Let_def dict_get_def clamp_int_def)
next
  case (Some x)
  with assms have "\<forall>tg. x \<noteq> JObj tg" by simp
  with Some show ?thesis
    by (cases x)
       (simp_all add: load_config_def Let_def dict_get_def clamp_int_def DEFAULT_TELEGRAM_def)
qed

text \<open>
  C8: whatever the configuration file holds, \<open>main\<close> computes an interval within 1..3600, a
  timeout within 200..10000, a degraded threshold within 1..20000, a failure threshold within
  1..20 and a cooldown within 5..3600. For a configuration that is an object, each of the five
  is \<open>clamp_int\<close> of the value under its key (the cooldown under the key of the
  \<open>telegram\<close> object, 60 when that is not an object), with its bounds and its default: a
  value that converts to an int is clamped to the bounds, one that does not, or is absent, is
  replaced by the default, which lies within them. A configuration that is not an object (or
  a missing or unreadable file) gives the defaults throughout.
\<close>

theorem config_values_within_bounds:
  "1 \<le> cfg_interval (load_config L cf) \<and> cfg_interval (load_config L cf) \<le> 3600
   \<and> 200 \<le> cfg_timeout_ms (load_config L cf) \<and> cfg_timeout_ms (load_config L cf) \<le> 10000
   \<and> 1 \<le> cfg_degraded_ms (load_config L cf) \<and> cfg_degraded_ms (load_config L cf) \<le> 20000
   \<and> 1 \<le> cfg_fail_threshold (load_config L cf) \<and> cfg_fail_threshold (load_config L cf) \<le> 20
   \<and> 5 \<le> cfg_tg_cooldown (load_config L cf) \<and> cfg_tg_cooldown (load_config L cf) \<le> 3600
   \<and> cfg_interval (load_config L (Doc (JObj c)))
       = clamp_int L (dict_get c ''interval_seconds'' JNull) 1 3600 3
   \<and> cfg_timeout_ms (load_config L (Doc (JObj c)))
       = clamp_int L (dict_get c ''timeout_ms'' JNull) 200 10000 1200
   \<and> cfg_degraded_ms (load_config L (Doc (JObj c)))
       = clamp_int L (dict_get c ''degraded_ms'' JNull) 1 20000 120
   \<and> cfg_fail_threshold (load_config L (Doc (JObj c)))
       = clamp_int L (dict_get c ''fail_threshold'' JNull) 1 20 2
   \<and> (map_of c ''telegram'' = Some (JObj tg) \<longrightarrow>
        cfg_tg_cooldown (load_config L (Doc (JObj c)))
          = clamp_int L (dict_get tg ''cooldown_seconds'' JNull) 5 3600 60)
   \<and> ((\<forall>tg. map_of c ''telegram'' \<noteq> Some (JObj tg)) \<longrightarrow>
        cfg_tg_cooldown (load_config L (Doc (JObj c))) = 60)
   \<and> (map_of c k = Some x \<longrightarrow> dict_get c k JNull = x)
   \<and> (map_of c k = None \<longrightarrow> clamp_int L (dict_get c k JNull) lo hi d = d)
   \<and> clamp_int L (JInt v) lo hi d = max lo (min hi v)
   \<and> (py_int L x = Inr v \<longrightarrow> clamp_int L x lo hi d = max lo (min hi v))
   \<and> (py_int L x = Inl e \<longrightarrow> clamp_int L x lo hi d = d)
   \<and> ((\<forall>obj. j \<noteq> JObj obj) \<longrightarrow> load_config L (Doc j) = default_values)
   \<and> load_config L Missing = default_values
   \<and> load_config L Corrupt = default_values"
proof -
  have non: "(\<forall>obj. j \<noteq> JObj obj) \<longrightarrow> load_config L (Doc j) = default_values"
    using load_config_non_object [of j L] load_config_Missing [of L] by simp
  have cor: "load_config L Corrupt = default_values"
    using load_config_Corrupt [of L] load_config_Missing [of L] by simp
  have cl: "clamp_int L (JInt v) lo hi d = max lo (min hi v)"
    "py_int L x = Inr v \<longrightarrow> clamp_int L x lo hi d = max lo (min hi v)"
    "py_int L x = Inl e \<longrightarrow> clamp_int L x lo hi d = d"
    by (simp_all add: clamp_int_def)
  have get: "map_of c k = Some x \<longrightarrow> dict_get c k JNull = x"
    "map_of c k = None \<longrightarrow> clamp_int L (dict_get c k JNull) lo hi d = d"
    by (simp_all add: dict_get_def clamp_int_def)
  have tg: "map_of c ''telegram'' = Some (JObj tg) \<longrightarrow>
        cfg_tg_cooldown (load_config L (Doc (JObj c)))
          = clamp_int L (dict_get tg ''cooldown_seconds'' JNull) 5 3600 60"
    "(\<forall>tg. map_of c ''telegram'' \<noteq> Some (JObj tg)) \<longrightarrow>
        cfg_tg_cooldown (load_config L (Doc (JObj c))) = 60"
    using load_config_cooldown [of c tg L] load_config_no_telegram [of c L] by blast+
  note bounds = load_config_bounds [of L cf]
  note ties = load_config_object [of L c]
  show ?thesis
    using bounds ties tg get cl non load_config_Missing [of L] cor
    by (intro conjI) (simp_all only:)
qed

theorem config_values_within_bounds_witness:
  "py_int example_lib (JFloat (Finite (7 / 2))) = Inr 3
   \<and> clamp_int example_lib (JFloat (Finite (7 / 2))) 5 3600 60 = 5
   \<and> py_int example_lib (JStr ''soon'') = Inl (Exception ''ValueError'')
   \<and> clamp_int example_lib (JStr ''soon'') 5 3600 60 = 60
   \<and> (\<forall>obj. JList [JInt 1] \<noteq> JObj obj)
   \<and> load_config example_lib (Doc (JList [JInt 1])) = default_values
   \<and> map_of out_of_range_cfg ''telegram'' = Some (JObj [(''cooldown_seconds'', JInt 2)])
   \<and> map_of out_of_range_cfg ''degraded_ms'' = None
   \<and> cfg_interval (load_config example_lib (Doc (JObj out_of_range_cfg))) = 1
   \<and> cfg_timeout_ms (load_config example_lib (Doc (JObj out_of_range_cfg))) = 10000
   \<and> cfg_degraded_ms (load_config example_lib (Doc (JObj out_of_range_cfg))) = 120
   \<and> cfg_fail_threshold (load_config example_lib (Doc (JObj out_of_range_cfg))) = 20
   \<and> cfg_tg_cooldown (load_config example_lib (Doc (JObj out_of_range_cfg))) = 5"
proof -
  have a: "py_int example_lib (JFloat (Finite (7 / 2))) = Inr 3"
    by simp
  have b: "py_int example_lib (JStr ''soon'') = Inl (Exception ''ValueError'')"
    by (simp add: example_lib_def)
  have c: "\<forall>obj. JList [JInt 1] \<noteq> JObj obj"
    by simp
  note inst1 = config_values_within_bounds [where L = example_lib
      and x = "JFloat (Finite (7 / 2))" and v = 3 and lo = 5 and hi = 3600 and d = 60]
  note inst2 = config_values_within_bounds [where L = example_lib
      and x = "JStr ''soon''" and e = "Exception ''ValueError''" and lo = 5 and hi = 3600
      and d = 60 and j = "JList [JInt 1]"]
  have d: "clamp_int example_lib (JFloat (Finite (7 / 2))) 5 3600 60 = 5"
    using inst1 a by simp
  have e: "clamp_int example_lib (JStr ''soon'') 5 3600 60 = 60"
    using inst2 b by simp
  have f: "load_config example_lib (Doc (JList [JInt 1])) = default_values"
    using inst2 c by simp
  have m: "map_of out_of_range_cfg ''telegram'' = Some (JObj [(''cooldown_seconds'', JInt 2)])"
    "map_of out_of_range_cfg ''degraded_ms'' = None"
    by (simp_all add: out_of_range_cfg_def)
  have look: "dict_get out_of_range_cfg ''interval_seconds'' JNull = JInt (- 4)"
    "dict_get out_of_range_cfg ''timeout_ms'' JNull = JInt 99999"
    "dict_get out_of_range_cfg ''fail_threshold'' JNull = JInt 500"
    "dict_get [(''cooldown_seconds'', JInt 2)] ''cooldown_seconds'' JNull = JInt 2"
    by (simp_all add: out_of_range_cfg_def dict_get_def)
  note tie = config_values_within_bounds [where L = example_lib and c = out_of_range_cfg
      and tg = "[(''cooldown_seconds'', JInt 2)]" and k = "''degraded_ms''"
      and lo = 1 and hi = 20000 and d = 120]
  have g1: "cfg_interval (load_config example_lib (Doc (JObj out_of_range_cfg))) = 1"
    using tie config_values_within_bounds [where L = example_lib and v = "- 4" and lo = 1
        and hi = 3600 and d = 3]
    by (simp add: look)
  have g2: "cfg_timeout_ms (load_config example_lib (Doc (JObj out_of_range_cfg))) = 10000"
    using tie config_values_within_bounds [where L = example_lib and v = 99999 and lo = 200
        and hi = 10000 and d = 1200]
    by (simp add: look)
  have g3: "cfg_degraded_ms (load_config example_lib (Doc (JObj out_of_range_cfg))) = 120"
    using tie m(2) by simp
  have g4: "cfg_fail_threshold (load_config example_lib (Doc (JObj out_of_range_cfg))) = 20"
    using tie config_values_within_bounds [where L = example_lib and v = 500 and lo = 1
        and hi = 20 and d = 2]
    by (simp add: look)
  have g5: "cfg_tg_cooldown (load_config example_lib (Doc (JObj out_of_range_cfg))) = 5"
    using tie m(1) config_values_within_bounds [where L = example_lib and v = 2 and lo = 5
        and hi = 3600 and d = 60]
    by (simp add: look)
  from a b c d e f m g1 g2 g3 g4 g5 show ?thesis
    by (intro conjI)
qed

section \<open>The notifier\<close>

text \<open>
  C9: \<open>telegram_send\<close> returns normally whenever its body returns or fails with any exception
  (any subclass of Exception): the failure is discarded. An iteration of the loop whose call
  fails ends exactly as the one whose call succeeds, so the failure is not surfaced and the
  call is not repeated; an iteration makes at most one call.
\<close>

theorem telegram_send_never_raises:
  "(returns_or_fails attempt \<longrightarrow> telegram_send bot_token chat_id text attempt = Inr ())
   \<and> telegram_send bot_token chat_id text (Some (Exception c)) = Inr ()
   \<and> process_target L cfg now_iso t (s\<lparr>urlopen_raises := Some (Exception c)\<rparr>) w
       = process_target L cfg now_iso t (s\<lparr>urlopen_raises := None\<rparr>) w
   \<and> (process_target L cfg now_iso t s w = Inr w' \<longrightarrow>
        (\<exists>m. telegram_calls w' = telegram_calls w \<or> telegram_calls w' = telegram_calls w @ [m]))"
proof (intro conjI impI)
  assume "returns_or_fails attempt"
  then show "telegram_send bot_token chat_id text attempt = Inr ()"
    by (rule telegram_send_swallow)
next
  show "telegram_send bot_token chat_id text (Some (Exception c)) = Inr ()"
    by (simp add: telegram_send_def)
next
  show "process_target L cfg now_iso t (s\<lparr>urlopen_raises := Some (Exception c)\<rparr>) w
       = process_target L cfg now_iso t (s\<lparr>urlopen_raises := None\<rparr>) w"
    by (simp add: process_target_def Let_def telegram_send_def del: classify_status.simps
        split: sum.splits)
next
  assume "process_target L cfg now_iso t s w = Inr w'"
  then show "\<exists>m. telegram_calls w' = telegram_calls w \<or> telegram_calls w' = telegram_calls w @ [m]"
    by (auto simp: process_target_def Let_def simp del: classify_status.simps
        split: sum.splits if_splits)
qed

theorem telegram_send_never_raises_witness:
  "returns_or_fails (Some (Exception ''URLError''))
   \<and> telegram_send ''token'' ''chat'' ''text'' (Some (Exception ''URLError'')) = Inr ()
   \<and> (\<exists>w'. process_target example_lib alert_cfg ''t1'' example_target
         ((unreachable 1700000000)\<lparr>urlopen_raises := Some (Exception ''URLError'')\<rparr>)
         (seen_world UP 0) = Inr w'
        \<and> telegram_calls w' = [alert_msg example_target UP DOWN])"
proof -
  let ?s = "(unreachable 1700000000)\<lparr>urlopen_raises := Some (Exception ''URLError'')\<rparr>"
  have q: "returns_or_fails (Some (Exception ''URLError''))"
    by (simp add: returns_or_fails_def)
  note inst = telegram_send_never_raises [where attempt = "Some (Exception ''URLError'')"
      and bot_token = "''token''" and chat_id = "''chat''"
      and L = example_lib and cfg = alert_cfg and t = example_target and w = "seen_world UP 0"
      and s = ?s and now_iso = "''t1''"]
  from inst q have send: "telegram_send ''token'' ''chat'' ''text'' (Some (Exception ''URLError''))
      = Inr ()"
    by blast
  have "urlopen_raises ?s = Some (Exception ''URLError'')"
    by simp
  with q have q': "returns_or_fails (urlopen_raises ?s)"
    by simp
  have step: "\<exists>w'. process_target example_lib alert_cfg ''t1'' example_target ?s
         (seen_world UP 0) = Inr w'
        \<and> telegram_calls w' = [alert_msg example_target UP DOWN]"
    unfolding process_target_result [OF read_prev_seen_world q']
    by (simp add: alert_cfg_def example_cfg_def unreachable_def seen_world_def empty_world_def
        status_change_def notify_due_def example_lib_def effective_status_def
        update_failures_def UP_def DOWN_def DEGRADED_def UNKNOWN_def)
  from q send step show ?thesis
    by (intro conjI)
qed

text \<open>
  An interrupt is not a failure of the call: it is no Exception, the handler does not catch
  it, and it ends the loop through the handler of \<open>main\<close>.
\<close>

lemma telegram_send_interrupt:
  "telegram_send bot_token chat_id text (Some KeyboardInterrupt) = Inl KeyboardInterrupt"
  by (simp add: telegram_send_def)

section \<open>Normalizing the targets\<close>

lemma dropWhile_rev_dropWhile:
  fixes P :: "'a \<Rightarrow> bool"
  defines "v \<equiv> \<lambda>s. dropWhile P (rev (dropWhile P s))"
  shows "dropWhile P (rev (v s)) = rev (v s)"
proof (cases "v s = []")
  case True
  then show ?thesis by simp
next
  case False
  let ?u = "dropWhile P s"
  have split: "rev ?u = takeWhile P (rev ?u) @ v s"
    unfolding v_def by simp
  have "last (rev ?u) = last (takeWhile P (rev ?u) @ v s)"
    using split by (rule arg_cong)
  with False have "last (v s) = last (rev ?u)"
    by simp
  moreover have nonempty: "?u \<noteq> []"
  proof
    assume a: "?u = []"
    have "v s = []" unfolding v_def a by simp
    with False show False by contradiction
  qed
  ultimately have "last (v s) = hd ?u"
    by (simp add: last_rev)
  moreover have "\<not> P (hd ?u)"
    using nonempty by (rule hd_dropWhile)
  ultimately have "\<not> P (hd (rev (v s)))"
    using False by (simp add: hd_rev)
  then show ?thesis
    by (simp add: dropWhile_eq_self_iff)
qed

lemma strip_strip: "strip (strip s) = strip s"
  unfolding strip_def using dropWhile_rev_dropWhile [of isspace s]
  by simp

lemma normalize_loop_concat:
  "normalize_loop L ts = concat (map (\<lambda>x. normalize_loop L [x]) ts)"
  by (induction ts) (auto simp: Let_def split: json.splits)

lemma normalize_loop_host:
  "t \<in> set (normalize_loop L ts) \<Longrightarrow> host t \<noteq> [] \<and> strip (host t) = host t"
  by (induction ts) (auto simp: Let_def strip_strip split: json.splits if_splits)

text \<open>
  C7 as stated does not hold: two entries whose hosts are equal after trimming are both kept,
  so the hosts of the normalized list are not unique.
\<close>

theorem normalize_targets_unique_counterexample:
  "normalize_targets example_lib duplicate_cfg
     = [\<lparr>name = ''A'', host = ''10.0.0.1''\<rparr>, \<lparr>name = ''10.0.0.1'', host = ''10.0.0.1''\<rparr>]
   \<and> \<not> distinct (map host (normalize_targets example_lib duplicate_cfg))"
  by (simp add: normalize_targets_def duplicate_cfg_def dict_get_def strip_def isspace_def Let_def)

text \<open>
  C7, as amended: every target produced by normalization has a host that is trimmed and not
  empty, and its name is the trimmed configured name, or its host when that name is blank or
  absent. Each entry of the configured list is treated on its own and the results are kept in
  order: an object with a non-empty trimmed host gives one target, anything else gives none.
  Hosts are not made unique.
\<close>

theorem normalize_targets_hosts_and_names:
  fixes L :: pylib and d :: pydict
  defines "h \<equiv> strip (py_str L (dict_get d ''host'' (JStr [])))"
  defines "n \<equiv> strip (py_str L (dict_get d ''name'' (JStr [])))"
  shows
  "(t \<in> set (normalize_targets L cfg) \<longrightarrow> host t \<noteq> [] \<and> strip (host t) = host t)
   \<and> (map_of cfg ''targets'' = Some (JList ts) \<longrightarrow>
        normalize_targets L cfg = concat (map (\<lambda>x. normalize_loop L [x]) ts))
   \<and> ((\<forall>ts. map_of cfg ''targets'' \<noteq> Some (JList ts)) \<longrightarrow> normalize_targets L cfg = [])
   \<and> normalize_loop L [JObj d]
       = (if h = [] then [] else [\<lparr>name = (if n = [] then h else n), host = h\<rparr>])
   \<and> (map_of d ''name'' = None \<longrightarrow> n = [])
   \<and> ((\<forall>obj. x \<noteq> JObj obj) \<longrightarrow> normalize_loop L [x] = [])"
proof (intro conjI impI)
  assume "t \<in> set (normalize_targets L cfg)"
  then have "\<exists>ts. t \<in> set (normalize_loop L ts)"
    by (auto simp: normalize_targets_def split: json.splits)
  then show "host t \<noteq> []" "strip (host t) = host t"
    using normalize_loop_host by blast+
next
  assume "map_of cfg ''targets'' = Some (JList ts)"
  then have "normalize_targets L cfg = normalize_loop L ts"
    by (simp add: normalize_targets_def dict_get_def)
  then show "normalize_targets L cfg = concat (map (\<lambda>x. normalize_loop L [x]) ts)"
    using normalize_loop_concat [of L ts] by simp
next
  assume "\<forall>ts. map_of cfg ''targets'' \<noteq> Some (JList ts)"
  then show "normalize_targets L cfg = []"
    by (cases "map_of cfg ''targets''")
       (auto simp: normalize_targets_def dict_get_def split: json.splits)
next
  show "normalize_loop L [JObj d]
       = (if h = [] then [] else [\<lparr>name = (if n = [] then h else n), host = h\<rparr>])"
    unfolding h_def n_def by (simp add: Let_def)
next
  assume "map_of d ''name'' = None"
  then show "n = []"
    unfolding n_def by (simp add: dict_get_def strip_def)
next
  assume "\<forall>obj. x \<noteq> JObj obj"
  then show "normalize_loop L [x] = []"
    by (cases x) simp_all
qed

theorem normalize_targets_hosts_and_names_witness:
  "\<lparr>name = ''10.0.0.1'', host = ''10.0.0.1''\<rparr> \<in> set (normalize_targets example_lib duplicate_cfg)
   \<and> strip (host \<lparr>name = ''10.0.0.1'', host = ''10.0.0.1''\<rparr>) = ''10.0.0.1''
   \<and> map_of [(''host'', JStr '' 10.0.0.1 '')] ''name'' = None
   \<and> normalize_loop example_lib [JObj [(''host'', JStr '' 10.0.0.1 '')]]
       = [\<lparr>name = ''10.0.0.1'', host = ''10.0.0.1''\<rparr>]
   \<and> (\<forall>obj. JStr ''10.0.0.2'' \<noteq> JObj obj)
   \<and> normalize_loop example_lib [JStr ''10.0.0.2''] = []
   \<and> (\<forall>ts. map_of [(''targets'', JStr ''none'')] ''targets'' \<noteq> Some (JList ts))
   \<and> normalize_targets example_lib [(''targets'', JStr ''none'')] = []"
proof -
  let ?t = "\<lparr>name = ''10.0.0.1'', host = ''10.0.0.1''\<rparr>"
  let ?d = "[(''host'', JStr '' 10.0.0.1 '')]"
  note inst = normalize_targets_hosts_and_names [where L = example_lib and cfg = duplicate_cfg
      and t = ?t and d = ?d and x = "JStr ''10.0.0.2''"]
  note inst2 = normalize_targets_hosts_and_names [where L = example_lib
      and cfg = "[(''targets'', JStr ''none'')]"]
  have mem: "?t \<in> set (normalize_targets example_lib duplicate_cfg)"
    by (simp add: normalize_targets_def duplicate_cfg_def dict_get_def strip_def isspace_def Let_def)
  with inst have a: "strip (host ?t) = ''10.0.0.1''"
    by simp
  have absent: "map_of ?d ''name'' = None"
    by simp
  have h: "strip (py_str example_lib (dict_get ?d ''host'' (JStr []))) = ''10.0.0.1''"
    by (simp add: dict_get_def strip_def isspace_def)
  from inst absent have "strip (py_str example_lib (dict_get ?d ''name'' (JStr []))) = []"
    by blast
  with inst h have b: "normalize_loop example_lib [JObj ?d] = [?t]"
    by simp
  have nobj: "\<forall>obj. JStr ''10.0.0.2'' \<noteq> JObj obj"
    by simp
  with inst have c: "normalize_loop example_lib [JStr ''10.0.0.2''] = []"
    by blast
  have nl: "\<forall>ts. map_of [(''targets'', JStr ''none'')] ''targets'' \<noteq> Some (JList ts)"
    by simp
  with inst2 have e: "normalize_targets example_lib [(''targets'', JStr ''none'')] = []"
    by blast
  from mem a absent b nobj c nl e show ?thesis
    by (intro conjI)
qed

section \<open>Loading the state\<close>

lemma load_state_no_object:
  "sf = Missing \<or> sf = Corrupt \<or> (\<exists>j. sf = Doc j \<and> (\<forall>d. j \<noteq> JObj d)) \<Longrightarrow> load_state sf = []"
  by (cases sf) (auto simp: load_state_def split: json.splits)

lemma run_cycle_state_json:
  "run_cycle L cfg now_iso samples w = Inr w' \<Longrightarrow> load_state (state_json w') = state w'"
  by (auto simp: run_cycle_def load_state_def split: sum.splits)

lemma main_start_state:
  "main_start L cf w = Some (cfg, w0) \<Longrightarrow> state w0 = load_state (state_json w)"
  by (auto simp: main_start_def Let_def split: if_splits)

text \<open>
  What loading the state copes with: a state file that is missing, unreadable or not JSON (or
  that holds something other than an object) gives the empty state: every host then reads
  status UNKNOWN and 0 failures without raising, and its first iteration returns. A state file
  that holds an object gives that object: an entry as the loop writes it reads back its status
  and failures, and after a pass of the loop a restarted process starts from exactly the state
  the pass ended with.
\<close>

theorem state_file_missing_or_kept:
  "(sf = Missing \<or> sf = Corrupt \<or> (\<exists>j. sf = Doc j \<and> (\<forall>d. j \<noteq> JObj d)) \<longrightarrow>
      load_state sf = []
      \<and> read_prev L (load_state sf) h
          = Inr \<lparr>prev_status = UNKNOWN, prev_failures = 0, prev_last_alert_ts = Finite 0,
                 prev_last_seen = JNull\<rparr>)
   \<and> (state w = [] \<and> returns_or_fails (urlopen_raises s) \<longrightarrow>
        (\<exists>w'. process_target L cfg now_iso t s w = Inr w'))
   \<and> load_state (Doc (JObj st)) = st
   \<and> (map_of st h = Some (JObj (state_entry status failures ls ts)) \<longrightarrow>
        read_prev L (load_state (Doc (JObj st))) h
          = Inr \<lparr>prev_status = status, prev_failures = failures, prev_last_alert_ts = ts,
                 prev_last_seen = ls\<rparr>)
   \<and> (main_start L cf w = Some (cfg0, w0) \<longrightarrow> state w0 = load_state (state_json w))
   \<and> (run_cycle L cfg now_iso samples w = Inr w1 \<and> main_start L cf w1 = Some (cfg1, w2) \<longrightarrow>
        state w2 = state w1)"
proof (intro conjI impI)
  assume a: "sf = Missing \<or> sf = Corrupt \<or> (\<exists>j. sf = Doc j \<and> (\<forall>d. j \<noteq> JObj d))"
  then show e: "load_state sf = []"
    by (rule load_state_no_object)
  show "read_prev L (load_state sf) h
          = Inr \<lparr>prev_status = UNKNOWN, prev_failures = 0, prev_last_alert_ts = Finite 0,
                 prev_last_seen = JNull\<rparr>"
    unfolding e by (rule read_prev_empty)
next
  assume "state w = [] \<and> returns_or_fails (urlopen_raises s)"
  then show "\<exists>w'. process_target L cfg now_iso t s w = Inr w'"
    using read_prev_empty [of L "host t"] by (simp add: process_target_result)
next
  show "load_state (Doc (JObj st)) = st"
    by (simp add: load_state_def)
next
  assume "map_of st h = Some (JObj (state_entry status failures ls ts))"
  then show "read_prev L (load_state (Doc (JObj st))) h
          = Inr \<lparr>prev_status = status, prev_failures = failures, prev_last_alert_ts = ts,
                 prev_last_seen = ls\<rparr>"
    by (simp add: load_state_def read_prev_entry)
next
  assume "main_start L cf w = Some (cfg0, w0)"
  then show "state w0 = load_state (state_json w)"
    by (rule main_start_state)
next
  assume "run_cycle L cfg now_iso samples w = Inr w1 \<and> main_start L cf w1 = Some (cfg1, w2)"
  then show "state w2 = state w1"
    using run_cycle_state_json main_start_state by metis
qed

lemma example_pass_returns:
  "\<exists>w1. run_cycle example_lib example_cfg ''t1'' (\<lambda>i. unreachable 1000) empty_world = Inr w1
     \<and> entry_field (state w1) (host example_target) ''failures'' = JInt 1
     \<and> entry_field (state w1) (host example_target) ''status'' = JStr DEGRADED"
  by (simp add: run_cycle_def process_target_def Let_def example_cfg_def example_target_def
      empty_world_def unreachable_def read_prev_def dict_get_def py_or_def
      status_change_def notify_due_def effective_status_def update_failures_def
      state_entry_def item_of_def telegram_send_def entry_field_def
      UP_def DOWN_def DEGRADED_def UNKNOWN_def)

lemma main_start_Missing:
  "main_start L Missing w = Some (default_values, w\<lparr>state := load_state (state_json w)\<rparr>)"
  by (simp add: main_start_def load_config_Missing)
     (simp add: default_values_def default_targets_def)

theorem state_file_missing_or_kept_witness:
  "(Corrupt = Missing \<or> Corrupt = Corrupt \<or> (\<exists>j. Corrupt = Doc j \<and> (\<forall>d. j \<noteq> JObj d)))
   \<and> load_state Corrupt = []
   \<and> read_prev example_lib (load_state Corrupt) ''192.168.1.1''
       = Inr \<lparr>prev_status = UNKNOWN, prev_failures = 0, prev_last_alert_ts = Finite 0,
              prev_last_seen = JNull\<rparr>
   \<and> state empty_world = [] \<and> returns_or_fails (urlopen_raises (unreachable 1000))
   \<and> (\<exists>w'. process_target example_lib example_cfg ''t1'' example_target (unreachable 1000)
          empty_world = Inr w')
   \<and> (\<exists>w1 w2. run_cycle example_lib example_cfg ''t1'' (\<lambda>i. unreachable 1000) empty_world
          = Inr w1
        \<and> main_start example_lib Missing w1 = Some (default_values, w2)
        \<and> state w2 = state w1
        \<and> entry_field (state w2) (host example_target) ''failures'' = JInt 1
        \<and> entry_field (state w2) (host example_target) ''status'' = JStr DEGRADED)"
proof -
  have c: "Corrupt = Missing \<or> Corrupt = Corrupt \<or> (\<exists>j. Corrupt = Doc j \<and> (\<forall>d. j \<noteq> JObj d))"
    by simp
  have e: "state empty_world = []"
    by (simp add: empty_world_def)
  have q: "returns_or_fails (urlopen_raises (unreachable 1000))"
    by (simp add: unreachable_def returns_or_fails_def)
  from example_pass_returns obtain w1 where
      run: "run_cycle example_lib example_cfg ''t1'' (\<lambda>i. unreachable 1000) empty_world = Inr w1"
    and f: "entry_field (state w1) (host example_target) ''failures'' = JInt 1"
      "entry_field (state w1) (host example_target) ''status'' = JStr DEGRADED"
    by blast
  let ?w2 = "w1\<lparr>state := load_state (state_json w1)\<rparr>"
  have start: "main_start example_lib Missing w1 = Some (default_values, ?w2)"
    by (rule main_start_Missing)
  note inst = state_file_missing_or_kept [where sf = Corrupt and L = example_lib
      and h = "''192.168.1.1''" and w = empty_world and s = "unreachable 1000"
      and cfg = example_cfg and now_iso = "''t1''" and t = example_target
      and samples = "\<lambda>i. unreachable 1000" and ?w1.0 = w1 and cf = Missing
      and ?cfg1.0 = default_values and ?w2.0 = ?w2]
  from inst c have a: "load_state Corrupt = []"
      "read_prev example_lib (load_state Corrupt) ''192.168.1.1''
       = Inr \<lparr>prev_status = UNKNOWN, prev_failures = 0, prev_last_alert_ts = Finite 0,
              prev_last_seen = JNull\<rparr>"
    by blast+
  from inst e q have b: "\<exists>w'. process_target example_lib example_cfg ''t1'' example_target
      (unreachable 1000) empty_world = Inr w'"
    by blast
  from inst run start have same: "state ?w2 = state w1"
    by blast
  have d: "\<exists>w1 w2. run_cycle example_lib example_cfg ''t1'' (\<lambda>i. unreachable 1000) empty_world
          = Inr w1
        \<and> main_start example_lib Missing w1 = Some (default_values, w2)
        \<and> state w2 = state w1
        \<and> entry_field (state w2) (host example_target) ''failures'' = JInt 1
        \<and> entry_field (state w2) (host example_target) ''status'' = JStr DEGRADED"
  proof (intro exI conjI)
    show "run_cycle example_lib example_cfg ''t1'' (\<lambda>i. unreachable 1000) empty_world = Inr w1"
      by (rule run)
    show "main_start example_lib Missing w1 = Some (default_values, ?w2)"
      by (rule start)
    show "state ?w2 = state w1"
      by (rule same)
    show "entry_field (state ?w2) (host example_target) ''failures'' = JInt 1"
      unfolding same by (rule f(1))
    show "entry_field (state ?w2) (host example_target) ''status'' = JStr DEGRADED"
      unfolding same by (rule f(2))
  qed
  from c a e q b d show ?thesis
    by (intro conjI)
qed

text \<open>
  C6 does not hold of the code for every corrupt state file. A state file that is JSON, but
  whose entry for a configured host holds a failure count that is not a number, is kept as
  the prior state, and the first pass of the loop raises TypeError at \<open>int(...)\<close>, line 261,
  which nothing catches: the process ends, at every start. The code copes with a state that
  is not an object (lines 239-240), with an entry that is not an object (lines 257-258) and
  with a falsy field (\<open>or 0\<close>), and \<open>clamp_int\<close> wraps the same conversion in
  \<open>try\<close>; the conversions of lines 261-262 are the case left out.
\<close>

theorem ill_typed_state_file_raises:
  "load_state (Doc ill_typed_state)
     = [(''192.168.1.1'', JObj [(''status'', JStr ''UP''), (''failures'', JList [JInt 1])])]
   \<and> main_start example_lib Missing (empty_world\<lparr>state_json := Doc ill_typed_state\<rparr>)
       = Some (default_values, ill_typed_world)
   \<and> read_prev example_lib (state ill_typed_world) ''192.168.1.1''
       = Inl (Exception ''TypeError'')
   \<and> process_target example_lib default_values ''t1''
         \<lparr>name = ''Router'', host = ''192.168.1.1''\<rparr> (reachable 20 1000) ill_typed_world
       = Inl (Exception ''TypeError'')
   \<and> run_cycle example_lib default_values ''t1'' always_reachable ill_typed_world
       = Inl (Exception ''TypeError'')"
proof -
  have l: "load_state (Doc ill_typed_state)
     = [(''192.168.1.1'', JObj [(''status'', JStr ''UP''), (''failures'', JList [JInt 1])])]"
    by (simp add: load_state_def ill_typed_state_def)
  have m: "main_start example_lib Missing (empty_world\<lparr>state_json := Doc ill_typed_state\<rparr>)
       = Some (default_values, ill_typed_world)"
    unfolding main_start_Missing
    by (simp add: ill_typed_world_def empty_world_def l)
  have r: "read_prev example_lib (state ill_typed_world) ''192.168.1.1''
       = Inl (Exception ''TypeError'')"
    by (simp add: ill_typed_world_def read_prev_def dict_get_def py_or_def)
  have p: "process_target example_lib default_values ''t1''
         \<lparr>name = ''Router'', host = ''192.168.1.1''\<rparr> (reachable 20 1000) ill_typed_world
       = Inl (Exception ''TypeError'')"
    by (simp add: process_target_def r)
  have c: "run_cycle example_lib default_values ''t1'' always_reachable ill_typed_world
       = Inl (Exception ''TypeError'')"
    by (simp add: run_cycle_def default_values_def default_targets_def always_reachable_def
        ill_typed_world_def reachable_def process_target_def Let_def read_prev_def dict_get_def
        py_or_def status_change_def effective_status_def update_failures_def
        UP_def DOWN_def DEGRADED_def UNKNOWN_def)
  from l m r p c show ?thesis
    by (intro conjI)
qed

end
